theory Spec2Isabelle
  imports
    Complex_Main
    "HOL-Library.Char_ord"
    "HOL-Library.List_Lexorder"
    "HOL-Library.Multiset"
begin

section \<open>auto2cmake: a shallow embedding of \<^verbatim>\<open>src/auto2cmake.py\<close>\<close>

text \<open>
  Python strings are modelled as \<^typ>\<open>string\<close> (lists of characters). Python compares
  strings lexicographically by code point; the order on \<^typ>\<open>string\<close> used here is the
  lexicographic order over the character codes, which is the same order on the 8-bit
  characters the model has. A Python list of one-character strings and a Python string
  with the same characters are both a \<^typ>\<open>string\<close> here, except where the source tells
  them apart (the \<^verbatim>\<open>condition\<close> attribute of a target, below).
\<close>

subsection \<open>Characters and text fragments\<close>

definition nl :: string where
  "nl = [CHR 0x0A]"

definition dq :: string where
  \<comment> \<open>a double quote\<close>
  "dq = [CHR 0x22]"

definition bs :: string where
  \<comment> \<open>one backslash\<close>
  "bs = [CHR 0x5C]"

definition spaces :: "int \<Rightarrow> string" where
  \<comment> \<open>\<^verbatim>\<open>" " * spacecount\<close>: empty when the count is not positive.\<close>
  "spaces n = replicate (nat n) CHR '' ''"

subsection \<open>Python string operations\<close>

text \<open>
  The text the tool reads (\<^verbatim>\<open>configure.ac\<close>, \<^verbatim>\<open>Makefile.am\<close>) is taken to be ASCII. The
  classification and case functions below are those of Python on ASCII characters; a
  character above 127 is, in this model, neither white space nor a letter nor a digit
  and has no upper case.
\<close>

datatype error = IndexError | TypeError

definition is_space :: "char \<Rightarrow> bool" where
  \<comment> \<open>\<^verbatim>\<open>str.isspace\<close>, and what \<^verbatim>\<open>strip()\<close> and \<^verbatim>\<open>split()\<close> remove: tab, line feed,
      vertical tab, form feed, carriage return, the four separators 28--31 and space.\<close>
  "is_space c = (c \<in> set [CHR 0x09, CHR 0x0A, CHR 0x0B, CHR 0x0C, CHR 0x0D,
                            CHR 0x1C, CHR 0x1D, CHR 0x1E, CHR 0x1F, CHR 0x20])"

definition is_digit :: "char \<Rightarrow> bool" where
  "is_digit c = (c \<in> set ''0123456789'')"

definition is_alpha :: "char \<Rightarrow> bool" where
  "is_alpha c = (c \<in> set ''abcdefghijklmnopqrstuvwxyzABCDEFGHIJKLMNOPQRSTUVWXYZ'')"

definition upper_char :: "char \<Rightarrow> char" where
  "upper_char c =
     (case map_of (zip ''abcdefghijklmnopqrstuvwxyz'' ''ABCDEFGHIJKLMNOPQRSTUVWXYZ'') c of
        Some u \<Rightarrow> u
      | None \<Rightarrow> c)"

definition upper :: "string \<Rightarrow> string" where
  "upper s = map upper_char s"

definition lstrip :: "string \<Rightarrow> string" where
  "lstrip s = dropWhile is_space s"

definition rstrip :: "string \<Rightarrow> string" where
  "rstrip s = rev (dropWhile is_space (rev s))"

definition strip :: "string \<Rightarrow> string" where
  "strip s = rstrip (lstrip s)"

definition startswith :: "string \<Rightarrow> string \<Rightarrow> bool" where
  "startswith s p = (take (length p) s = p)"

definition endswith :: "string \<Rightarrow> string \<Rightarrow> bool" where
  "endswith s p = (length p \<le> length s \<and> drop (length s - length p) s = p)"

fun str_in :: "string \<Rightarrow> string \<Rightarrow> bool" where
  \<comment> \<open>\<^verbatim>\<open>sub in s\<close>; also \<^verbatim>\<open>s.find(sub) != -1\<close>.\<close>
  "str_in sub [] = (sub = [])"
| "str_in sub (c # cs) = (startswith (c # cs) sub \<or> str_in sub cs)"

definition replace_char :: "char \<Rightarrow> string \<Rightarrow> string \<Rightarrow> string" where
  \<comment> \<open>\<^verbatim>\<open>s.replace(old, new)\<close> for a one-character \<^verbatim>\<open>old\<close>.\<close>
  "replace_char old new s = concat (map (\<lambda>c. if c = old then new else [c]) s)"

fun split_ws_loop :: "string \<Rightarrow> string \<Rightarrow> string list" where
  "split_ws_loop cur [] = (if cur = [] then [] else [cur])"
| "split_ws_loop cur (c # cs) =
     (if is_space c then (if cur = [] then [] else [cur]) @ split_ws_loop [] cs
      else split_ws_loop (cur @ [c]) cs)"

definition split_ws :: "string \<Rightarrow> string list" where
  \<comment> \<open>\<^verbatim>\<open>s.split()\<close>: the maximal runs of characters that are not white space.\<close>
  "split_ws s = split_ws_loop [] s"

fun split_char_loop :: "char \<Rightarrow> string \<Rightarrow> string \<Rightarrow> string list" where
  "split_char_loop sep cur [] = [cur]"
| "split_char_loop sep cur (c # cs) =
     (if c = sep then cur # split_char_loop sep [] cs else split_char_loop sep (cur @ [c]) cs)"

definition split_char :: "char \<Rightarrow> string \<Rightarrow> string list" where
  \<comment> \<open>\<^verbatim>\<open>s.split(sep)\<close> for a one-character separator.\<close>
  "split_char sep s = split_char_loop sep [] s"

fun split_sep_loop :: "string \<Rightarrow> string \<Rightarrow> string \<Rightarrow> string list" where
  "split_sep_loop sep cur [] = [cur]"
| "split_sep_loop sep cur (c # cs) =
     (if startswith (c # cs) sep
      then cur # split_sep_loop sep [] (drop (length sep - 1) cs)
      else split_sep_loop sep (cur @ [c]) cs)"

definition split_sep :: "string \<Rightarrow> string \<Rightarrow> string list" where
  \<comment> \<open>\<^verbatim>\<open>s.split(sep)\<close> for a separator that is not empty: the occurrences are found from
      the left and do not overlap.\<close>
  "split_sep sep s = split_sep_loop sep [] s"

fun replace_all :: "string \<Rightarrow> string \<Rightarrow> string \<Rightarrow> string" where
  \<comment> \<open>\<^verbatim>\<open>s.replace(old, new)\<close> for an \<^verbatim>\<open>old\<close> that is not empty.\<close>
  "replace_all old new [] = []"
| "replace_all old new (c # cs) =
     (if startswith (c # cs) old
      then new @ replace_all old new (drop (length old - 1) cs)
      else c # replace_all old new cs)"

fun replace_first :: "string \<Rightarrow> string \<Rightarrow> string \<Rightarrow> string" where
  \<comment> \<open>\<^verbatim>\<open>s.replace(old, new, 1)\<close> for an \<^verbatim>\<open>old\<close> that is not empty.\<close>
  "replace_first old new [] = []"
| "replace_first old new (c # cs) =
     (if startswith (c # cs) old
      then new @ drop (length old - 1) cs
      else c # replace_first old new cs)"

fun join :: "string \<Rightarrow> string list \<Rightarrow> string" where
  \<comment> \<open>\<^verbatim>\<open>sep.join(xs)\<close>\<close>
  "join sep [] = []"
| "join sep [x] = x"
| "join sep (x # y # ys) = x @ sep @ join sep (y # ys)"

definition dirname :: "string \<Rightarrow> string" where
  \<comment> \<open>\<^verbatim>\<open>os.path.dirname\<close> (posixpath): the part up to the last slash, without trailing
      slashes unless it consists of slashes only.\<close>
  "dirname p =
     (let head = rev (dropWhile (\<lambda>c. c \<noteq> CHR ''/'') (rev p))
      in if head \<noteq> [] \<and> \<not> list_all (\<lambda>c. c = CHR ''/'') head
         then rev (dropWhile (\<lambda>c. c = CHR ''/'') (rev head)) else head)"

definition remove_garbage :: "string \<Rightarrow> string" where
  \<comment> \<open>lines 270--278: drops \<^verbatim>\<open>] , [ $ ( )\<close> and strips.\<close>
  "remove_garbage extra_value =
     strip (filter (\<lambda>c. c \<notin> set ''],[$()'') extra_value)"

definition replace_quotes :: "string \<Rightarrow> string" where
  \<comment> \<open>lines 240--242: a double quote becomes backslash, double quote.\<close>
  "replace_quotes a = replace_char (CHR 0x22) [CHR 0x5C, CHR 0x22] a"

subsection \<open>Dictionaries\<close>

text \<open>
  A Python dictionary iterates in insertion order and assignment to a key that is
  present keeps the key's place, so a dictionary is an association list; \<open>dict_set\<close>
  is \<^verbatim>\<open>d[k] = v\<close> and \<^const>\<open>map_of\<close> is the lookup.
\<close>

fun dict_set :: "'k \<Rightarrow> 'v \<Rightarrow> ('k \<times> 'v) list \<Rightarrow> ('k \<times> 'v) list" where
  "dict_set k v [] = [(k, v)]"
| "dict_set k v ((k', v') # d) = (if k' = k then (k, v) # d else (k', v') # dict_set k v d)"

subsection \<open>Options (class \<^verbatim>\<open>Option\<close>, lines 132--201)\<close>

record ac_option =
  opt_name :: string
  opt_description :: string
  opt_status :: string
  opt_define :: string
  opt_define_value :: string
  opt_define_description :: string
  opt_extra_defines :: "string list"

type_synonym options = "(string \<times> ac_option) list"

definition Option_init ::
  "string \<Rightarrow> string \<Rightarrow> string \<Rightarrow> string \<Rightarrow> string \<Rightarrow> string \<Rightarrow> ac_option" where
  \<comment> \<open>\<^verbatim>\<open>Option.__init__\<close>; the module constant \<^verbatim>\<open>upcase_identifiers\<close> is 1 and is never
      assigned, so the name is always upper-cased.\<close>
  "Option_init name description status define_name define_value define_description =
     \<lparr> opt_name = upper (replace_char CHR ''-'' ''_'' name),
       opt_description = description,
       opt_status = status,
       opt_define = define_name,
       opt_define_value = filter (\<lambda>c. c \<notin> set ''],['') define_value,
       opt_define_description = define_description,
       opt_extra_defines = [] \<rparr>"

definition set_define_value :: "string \<Rightarrow> ac_option \<Rightarrow> ac_option" where
  "set_define_value define_value opt =
     opt\<lparr>opt_define_value :=
           (if CHR ''['' \<in> set define_value
            then filter (\<lambda>c. c \<notin> set ''[]'') define_value else define_value)\<rparr>"


subsection \<open>\<^verbatim>\<open>process_argument\<close> (lines 306--348)\<close>

text \<open>
  The description is read by four \<^verbatim>\<open>while\<close> loops of the shape
  \<^verbatim>\<open>while s[i] == ' ' and i < len(s): i += 1\<close>. Each reads \<^verbatim>\<open>s[i]\<close> before it compares
  \<^verbatim>\<open>i\<close> with the length, so a loop that reaches the end of the string raises
  \<^verbatim>\<open>IndexError\<close>. The loops work on the rest of the string after the first \<^verbatim>\<open>[\<close>.
\<close>

fun skip_while :: "(char \<Rightarrow> bool) \<Rightarrow> string \<Rightarrow> error + string" where
  "skip_while p [] = Inl IndexError"
| "skip_while p (c # cs) = (if p c then skip_while p cs else Inr (c # cs))"

fun collect_description :: "string \<Rightarrow> error + string" where
  "collect_description [] = Inl IndexError"
| "collect_description (c # cs) =
     (if c \<noteq> CHR '']''
      then (case collect_description cs of Inl e \<Rightarrow> Inl e | Inr d \<Rightarrow> Inr (c # d))
      else Inr [])"

definition arg_description :: "string \<Rightarrow> error + string" where
  "arg_description s =
     (case dropWhile (\<lambda>c. c \<noteq> CHR ''['') s of
        [] \<Rightarrow> Inr []
      | _ # after_bracket \<Rightarrow>
          (case skip_while (\<lambda>c. c = CHR '' '') after_bracket of
             Inl e \<Rightarrow> Inl e
           | Inr r1 \<Rightarrow>
          (case skip_while (\<lambda>c. c \<noteq> CHR '' '') r1 of
             Inl e \<Rightarrow> Inl e
           | Inr r2 \<Rightarrow>
          (case skip_while (\<lambda>c. c = CHR '' '') r2 of
             Inl e \<Rightarrow> Inl e
           | Inr r3 \<Rightarrow> collect_description r3))))"

definition arg_text :: "string \<Rightarrow> string" where
  \<comment> \<open>\<^verbatim>\<open>s = line[len("AC_ARG_ENABLE("):].strip()\<close>\<close>
  "arg_text line = strip (drop (length ''AC_ARG_ENABLE('') line)"

definition arg_key :: "string \<Rightarrow> string" where
  \<comment> \<open>the characters up to the first comma, with \<^verbatim>\<open>-\<close> replaced by \<^verbatim>\<open>_\<close>: the key of
      the entry in \<^verbatim>\<open>options\<close>.\<close>
  "arg_key line =
     replace_char CHR ''-'' ''_'' (takeWhile (\<lambda>c. c \<noteq> CHR '','') (arg_text line))"

definition arg_on_off :: "string \<Rightarrow> string" where
  "arg_on_off line = (if str_in ''=yes'' (arg_text line) then ''ON'' else ''OFF'')"

definition process_argument :: "string \<Rightarrow> options \<Rightarrow> error + options" where
  "process_argument line options =
     (let arg_name = arg_key line in
      case arg_description (arg_text line) of
        Inl e \<Rightarrow> Inl e
      | Inr description \<Rightarrow>
          (case map_of options arg_name of
             None \<Rightarrow>
               Inr (dict_set arg_name
                      (Option_init arg_name description (arg_on_off line) [] [] []) options)
           | Some opt \<Rightarrow>
               Inr (dict_set arg_name
                      (opt\<lparr>opt_name := arg_name, opt_description := description,
                           opt_status := arg_on_off line\<rparr>) options)))"

subsection \<open>\<^verbatim>\<open>process_conditional\<close> (lines 365--387)\<close>

fun scan_after_dollar :: "(char \<Rightarrow> bool) \<Rightarrow> bool \<Rightarrow> string \<Rightarrow> string" where
  \<comment> \<open>the two-stage loop: \<open>adding\<close> is \<^verbatim>\<open>stage == 2\<close>; \<open>stop\<close> holds of the characters
      that end the scan once it is adding.\<close>
  "scan_after_dollar stop adding [] = []"
| "scan_after_dollar stop adding (c # cs) =
     (if stop c \<and> adding then []
      else (if adding then [c] else []) @ scan_after_dollar stop (adding \<or> c = CHR ''$'') cs)"

definition cond_text :: "string \<Rightarrow> string" where
  "cond_text line = strip (drop (length ''AM_CONDITIONAL('') line)"

definition cond_define :: "string \<Rightarrow> string" where
  "cond_define line = takeWhile (\<lambda>c. c \<noteq> CHR '','') (cond_text line)"

definition cond_key :: "string \<Rightarrow> string" where
  "cond_key line =
     replace_char CHR ''-'' ''_''
       (scan_after_dollar (\<lambda>c. c = CHR 0x22 \<or> c = CHR '' '' \<or> c = CHR ''='') False
          (cond_text line))"

definition process_conditional :: "string \<Rightarrow> options \<Rightarrow> options" where
  "process_conditional line options =
     (let define_name = cond_define line; bound_option = cond_key line in
      case map_of options bound_option of
        Some opt \<Rightarrow> dict_set bound_option (opt\<lparr>opt_define := define_name\<rparr>) options
      | None \<Rightarrow>
          dict_set bound_option (Option_init bound_option [] [] define_name [] []) options)"

subsection \<open>Defines: \<^verbatim>\<open>process_a_define\<close> (lines 392--442)\<close>

record define_entry =
  def_name :: string
  def_option_name :: string
  def_description :: string
  def_value :: string
  def_used :: nat

type_synonym define_table = "(string \<times> define_entry) list"

fun define_scan ::
  "nat \<Rightarrow> int \<Rightarrow> int \<Rightarrow> string \<times> string \<times> string \<Rightarrow> string \<Rightarrow> string \<times> string \<times> string" where
  \<comment> \<open>the three-stage loop over the characters; the triple is \<^verbatim>\<open>define_string\<close>,
      \<^verbatim>\<open>defined_to_value\<close>, \<^verbatim>\<open>define_description\<close>.\<close>
  "define_scan stage sqp roup acc [] = acc"
| "define_scan stage sqp roup (define_string, defined_to_value, define_description) (c # cs) =
     (let sqp1 = (if c = CHR ''['' then sqp + 1 else sqp);
          sqp2 = (if c = CHR '']'' then sqp1 - 1 else sqp1);
          roup1 = (if c = CHR ''('' then roup + 1 else roup);
          roup2 = (if c = CHR '')'' then roup1 - 1 else roup1)
      in if c = CHR '')'' \<and> roup2 = 0
         then (define_string, defined_to_value, define_description)
         else (let stage1 = (if c = CHR '','' \<and> sqp2 = 0 then stage + 1 else stage)
               in if c = CHR '','' \<and> sqp2 = 0 \<and> stage1 = 4
                  then (define_string, defined_to_value, define_description)
                  else define_scan stage1 sqp2 roup2
                         (if stage1 = 1 \<and> c \<noteq> CHR '','' 
                          then (define_string @ [c], defined_to_value, define_description)
                          else if stage1 = 2 \<and> c \<noteq> CHR '',''
                          then (define_string, defined_to_value @ [c], define_description)
                          else if stage1 = 3
                          then (define_string, defined_to_value, define_description @ [c])
                          else (define_string, defined_to_value, define_description))
                         cs))"

definition process_a_define :: "string \<Rightarrow> define_table \<Rightarrow> define_table" where
  "process_a_define line temp_defines =
     (let s = strip (drop (length ''AC_DEFINE('') line);
          (define_string, defined_to_value, define_description) =
             define_scan 1 0 1 ([], [], []) s;
          variable_name = scan_after_dollar (\<lambda>c. c = CHR 0x22) False s
      in dict_set define_string
           \<lparr>def_name = define_string,
            def_option_name = upper variable_name,
            def_description = define_description,
            def_value = defined_to_value,
            def_used = 0\<rparr>
           temp_defines)"

subsection \<open>\<^verbatim>\<open>process_configure_ac\<close>: binding defines to options (lines 1016--1050)\<close>

definition bind_define :: "ac_option \<Rightarrow> define_entry \<Rightarrow> ac_option \<times> bool" where
  \<comment> \<open>the body of the inner loop of lines 1019--1032: the option after the two tests and
      the flag \<^verbatim>\<open>enter\<close>.\<close>
  "bind_define option temp_define =
     (let (option1, enter1) =
            (if opt_define option = def_name temp_define
             then (set_define_value (def_value temp_define)
                     (option\<lparr>opt_define_description := def_description temp_define\<rparr>), True)
             else (option, False));
          (option2, enter2) =
            (if opt_name option1 = def_option_name temp_define
             then (set_define_value (def_value temp_define)
                     (option1\<lparr>opt_define := def_name temp_define,
                              opt_define_description := def_description temp_define\<rparr>), True)
             else (option1, enter1))
      in (option2, enter2))"

fun exact_scan :: "ac_option \<Rightarrow> define_table \<Rightarrow> ac_option \<times> define_table" where
  \<comment> \<open>the inner loop: stops (\<^verbatim>\<open>break\<close>) at the first define that binds.\<close>
  "exact_scan option [] = (option, [])"
| "exact_scan option ((temp_define_name, temp_define) # rest) =
     (let (option1, enter) = bind_define option temp_define
      in if enter
         then (option1, (temp_define_name, temp_define\<lparr>def_used := 1\<rparr>) # rest)
         else (let (option2, rest1) = exact_scan option1 rest
               in (option2, (temp_define_name, temp_define) # rest1)))"

fun exact_pass :: "options \<Rightarrow> define_table \<Rightarrow> options \<times> define_table" where
  "exact_pass [] temp_defines = ([], temp_defines)"
| "exact_pass ((option_name, option) # rest) temp_defines =
     (let (option1, temp_defines1) = exact_scan option temp_defines;
          (rest1, temp_defines2) = exact_pass rest temp_defines1
      in ((option_name, option1) # rest1, temp_defines2))"

text \<open>
  The second pass calls \<^verbatim>\<open>similar(a, b)\<close>, which is
  \<^verbatim>\<open>difflib.SequenceMatcher(None, a, b).ratio()\<close>. The scorer belongs to Python's library
  and is the parameter \<open>similar\<close>; its result, a floating-point number between 0 and 1,
  is read as a real number.
\<close>

definition fuzzy_match :: "(string \<Rightarrow> string \<Rightarrow> real) \<Rightarrow> string \<Rightarrow> string \<Rightarrow> bool" where
  \<comment> \<open>lines 1043--1048, for a define name and a key of \<^verbatim>\<open>options\<close>.\<close>
  "fuzzy_match similar temp_define_name option_name =
     (let td_upper = upper temp_define_name; opt_upper = upper option_name
      in 0.5 < similar td_upper opt_upper \<or> str_in td_upper opt_upper
           \<or> str_in opt_upper td_upper)"

definition add_extra_define :: "string \<Rightarrow> ac_option \<Rightarrow> ac_option" where
  "add_extra_define extra_define opt =
     opt\<lparr>opt_extra_defines := opt_extra_defines opt @ [extra_define]\<rparr>"

definition fuzzy_attach :: "(string \<Rightarrow> string \<Rightarrow> real) \<Rightarrow> string \<Rightarrow> options \<Rightarrow> options" where
  \<comment> \<open>the inner loop of lines 1041--1049: every matching option gets the define.\<close>
  "fuzzy_attach similar temp_define_name options =
     map (\<lambda>(option_name, option).
            if fuzzy_match similar temp_define_name option_name
            then (option_name, add_extra_define temp_define_name option)
            else (option_name, option)) options"

fun fuzzy_pass :: "(string \<Rightarrow> string \<Rightarrow> real) \<Rightarrow> define_table \<Rightarrow> options \<Rightarrow> define_table \<times> options" where
  "fuzzy_pass similar [] options = ([], options)"
| "fuzzy_pass similar ((temp_define_name, temp_define) # rest) options =
     (if def_used temp_define = 0
      then (let options1 = fuzzy_attach similar temp_define_name options;
                temp_define1 =
                  (if list_ex (\<lambda>(option_name, option).
                                 fuzzy_match similar temp_define_name option_name) options
                   then temp_define\<lparr>def_used := 1\<rparr> else temp_define);
                (rest1, options2) = fuzzy_pass similar rest options1
            in ((temp_define_name, temp_define1) # rest1, options2))
      else (let (rest1, options2) = fuzzy_pass similar rest options
            in ((temp_define_name, temp_define) # rest1, options2)))"

definition merge_defines ::
  "(string \<Rightarrow> string \<Rightarrow> real) \<Rightarrow> options \<Rightarrow> define_table \<Rightarrow> options \<times> define_table" where
  \<comment> \<open>lines 1016--1050: the exact pass, then the fuzzy pass.\<close>
  "merge_defines similar options temp_defines =
     (let (options1, temp_defines1) = exact_pass options temp_defines;
          (temp_defines2, options2) = fuzzy_pass similar temp_defines1 options1
      in (options2, temp_defines2))"

text \<open>
  The fuzzy pass compares the upper-cased key of \<^verbatim>\<open>options\<close>, not the Option's name. For
  every Option the parser makes the two agree up to case:
\<close>

definition keys_name_options :: "options \<Rightarrow> bool" where
  "keys_name_options options = list_all (\<lambda>(k, opt). upper (opt_name opt) = upper k) options"

subsection \<open>Targets (class \<^verbatim>\<open>Library\<close>, lines 83--126)\<close>

datatype TargetType = LIBRARY | PROGRAM

text \<open>
  The attribute \<^verbatim>\<open>condition\<close> starts as the empty list. The parser extends it with
  \<^verbatim>\<open>library.condition += if_condition\<close>, which appends the characters of the string one
  by one, so while parsing it is a list of one-character strings. \<^verbatim>\<open>process_libraries\<close>
  later assigns a string to it. Python's \<^verbatim>\<open>==\<close> between a string and a list is always
  false, so the two are kept apart.
\<close>

datatype condition = CharList string | Str string

definition condition_chars :: "condition \<Rightarrow> string" where
  "condition_chars c = (case c of CharList cs \<Rightarrow> cs | Str s \<Rightarrow> s)"

definition condition_add :: "condition \<Rightarrow> string \<Rightarrow> condition" where
  \<comment> \<open>\<^verbatim>\<open>library.condition += if_condition\<close>\<close>
  "condition_add c s = (case c of CharList cs \<Rightarrow> CharList (cs @ s) | Str t \<Rightarrow> Str (t @ s))"

definition eq_condition :: "string \<Rightarrow> condition \<Rightarrow> bool" where
  \<comment> \<open>\<^verbatim>\<open>option.get_define() == library.condition\<close>\<close>
  "eq_condition s c = (case c of CharList cs \<Rightarrow> False | Str t \<Rightarrow> s = t)"

record Library =
  lib_name :: string
  lib_dependant :: bool
  lib_filelist :: "string list"
  lib_condition :: condition
  lib_link_with_libs :: "string list"
  lib_compiler_flags :: string
  lib_linker_flags :: "string list"
  lib_conditional_appends :: "(string \<times> string list) list"
  lib_just_variables :: "(string \<times> string list list) list"
  lib_added_subdirectories :: "string list"
  lib_target_type :: TargetType
  lib_ttype :: string
  lib_referred_name :: string
  lib_canonic_name :: string
  lib_directory :: string
  lib_type :: string

definition canonicalize :: "string \<Rightarrow> string" where
  \<comment> \<open>lines 284--291\<close>
  "canonicalize a =
     map (\<lambda>c. if is_digit c \<or> is_alpha c \<or> c = CHR ''_'' then c else CHR ''_'') a"

definition Library_init :: "string \<Rightarrow> string \<Rightarrow> Library" where
  \<comment> \<open>\<^verbatim>\<open>Library.__init__\<close>; \<^verbatim>\<open>x[3:]\<close> is \<open>drop 3 x\<close> and \<^verbatim>\<open>x[:-k]\<close> is
      \<open>take (length x - k) x\<close>. The compiler flags start as the empty list and are only
      ever extended by strings or replaced by a string and read through \<^verbatim>\<open>"".join\<close>, so
      they are a string here.\<close>
  "Library_init name directory =
     (let dependant = (CHR ''$'' \<in> set name);
          name1 = (if dependant then filter (\<lambda>c. c \<notin> set ''$()'') name else name);
          shortened = drop 3 name1
      in \<lparr> lib_name = name1,
           lib_dependant = dependant,
           lib_filelist = [],
           lib_condition = CharList [],
           lib_link_with_libs = [],
           lib_compiler_flags = [],
           lib_linker_flags = [],
           lib_conditional_appends = [],
           lib_just_variables = [],
           lib_added_subdirectories = [],
           lib_target_type = LIBRARY,
           lib_ttype = [],
           lib_referred_name =
             (if \<not> dependant
              then (if endswith name1 ''.a'' then take (length shortened - 2) shortened
                    else take (length shortened - 3) shortened)
              else name1),
           lib_canonic_name = canonicalize name1,
           lib_directory = directory,
           lib_type =
             (if \<not> dependant
              then (if endswith name1 ''.a'' then ''STATIC'' else ''DYNAMIC'')
              else ''STATIC'') \<rparr>)"

definition has_library :: "Library list \<Rightarrow> string \<Rightarrow> bool" where
  "has_library libraries name = list_ex (\<lambda>l. lib_canonic_name l = name) libraries"

definition get_library_for_name :: "Library list \<Rightarrow> string \<Rightarrow> Library option" where
  "get_library_for_name libraries name = find (\<lambda>l. lib_canonic_name l = name) libraries"

definition should_exclude :: "string list \<Rightarrow> string \<Rightarrow> bool" where
  \<comment> \<open>lines 261--265; \<open>exclude_directories\<close> is the module variable set by \<^verbatim>\<open>-e\<close>.\<close>
  "should_exclude exclude_directories dire =
     list_ex (\<lambda>exc_dir. startswith dire exc_dir) exclude_directories"

subsection \<open>\<^verbatim>\<open>process_makefile_am\<close>, first run: the targets (lines 468--492)\<close>

definition declared_library :: "string \<Rightarrow> string \<Rightarrow> string \<Rightarrow> Library" where
  \<comment> \<open>lines 486--490: the object built for one name of a declaring line.\<close>
  "declared_library line library_name makefiles_directory =
     (let library = Library_init library_name makefiles_directory
      in if str_in ''_PROGRAMS'' line
         then library\<lparr>lib_target_type := PROGRAM,
                      lib_referred_name := lib_canonic_name library\<rparr>
         else library)"

fun add_declared :: "string \<Rightarrow> string \<Rightarrow> string list \<Rightarrow> Library list \<Rightarrow> Library list" where
  "add_declared line dir [] libraries = libraries"
| "add_declared line dir (library_name # rest) libraries =
     (let library = declared_library line library_name dir
      in add_declared line dir rest
           (if \<not> has_library libraries (lib_canonic_name library)
            then libraries @ [library] else libraries))"

definition process_it :: "string list \<Rightarrow> string \<Rightarrow> bool" where
  \<comment> \<open>lines 480--483\<close>
  "process_it exclude_directories makefiles_directory =
     (\<not> list_ex (\<lambda>excluded_dir. startswith makefiles_directory excluded_dir
                                  \<and> excluded_dir \<noteq> []) exclude_directories)"

definition first_run_line ::
  "string list \<Rightarrow> string \<Rightarrow> string \<Rightarrow> Library list \<Rightarrow> Library list" where
  "first_run_line exclude_directories current_directory raw_line libraries =
     (let line = strip raw_line in
      if startswith line ''#'' then libraries
      else if str_in ''_LIBRARIES'' line \<or> str_in ''_PROGRAMS'' line
      then (if process_it exclude_directories current_directory
            then add_declared line current_directory (drop 2 (split_ws line)) libraries
            else libraries)
      else libraries)"

definition first_run ::
  "string list \<Rightarrow> string \<Rightarrow> string list \<Rightarrow> Library list \<Rightarrow> Library list" where
  "first_run exclude_directories current_directory content libraries =
     fold (first_run_line exclude_directories current_directory) content libraries"

subsection \<open>\<^verbatim>\<open>process_makefile_am\<close>, second run: the attributes (lines 494--616)\<close>

text \<open>
  The state of the second run: the active condition, the text of the last \<^verbatim>\<open>SUBDIRS\<close>
  assignment, the variables defined in this file (for each name the list of values and
  the list of conditions, \<^verbatim>\<open>defined_variables[name]["value"]\<close> and \<^verbatim>\<open>["condition"]\<close>),
  the names of the targets this file gave attributes to, and the global list of targets.
\<close>

record parse_state =
  ps_if_condition :: string
  ps_dirs_to_go_in :: string
  ps_defined_variables :: "(string \<times> (string list list \<times> string list)) list"
  ps_libraries_in_this_file :: "string list"
  ps_libraries :: "Library list"

fun update_first :: "('a \<Rightarrow> bool) \<Rightarrow> ('a \<Rightarrow> 'a) \<Rightarrow> 'a list \<Rightarrow> 'a list" where
  \<comment> \<open>an assignment to an attribute of the object that \<^verbatim>\<open>get_library_for_name\<close> returned:
      the first element of the list with the property is replaced.\<close>
  "update_first P f [] = []"
| "update_first P f (x # xs) = (if P x then f x # xs else x # update_first P f xs)"

fun join_continuation :: "string \<Rightarrow> string list \<Rightarrow> error + string" where
  \<comment> \<open>lines 512--514: \<^verbatim>\<open>while line.endswith('\\'): i += 1; line += content[i].strip()\<close>;
      the second argument holds the lines after line \<^verbatim>\<open>i\<close>. Reading past the last line
      raises \<^verbatim>\<open>IndexError\<close>.\<close>
  "join_continuation line [] = (if endswith line bs then Inl IndexError else Inr line)"
| "join_continuation line (next_line # rest) =
     (if endswith line bs then join_continuation (line @ strip next_line) rest else Inr line)"

definition logical_line :: "string \<Rightarrow> string" where
  \<comment> \<open>lines 516--517: the backslashes are deleted; then the line is split at the
      two-character string tab, space and the pieces are joined again, each formatted
      with \<^verbatim>\<open>'%-1s'\<close>, which turns an empty piece into one space.\<close>
  "logical_line line =
     concat (map (\<lambda>item. if item = [] then '' '' else item)
               (split_sep [CHR 0x09, CHR '' ''] (replace_char (CHR 0x5C) [] line)))"

definition variable_of :: "string \<Rightarrow> string" where
  \<comment> \<open>lines 521--524\<close>
  "variable_of element0 =
     (let variable = strip element0
      in if CHR ''+'' \<in> set variable
         then strip (filter (\<lambda>c. c \<noteq> CHR ''+'') variable) else variable)"

definition assign_to_library ::
  "string \<Rightarrow> (Library \<Rightarrow> Library) \<Rightarrow> parse_state \<times> bool \<Rightarrow> parse_state \<times> bool" where
  \<comment> \<open>what the four attribute branches share: when a target of that name is known,
      \<^verbatim>\<open>used\<close> becomes true, the name is appended to \<^verbatim>\<open>libraries_in_this_file\<close>, an active
      condition is added to the target's condition, and the attribute is assigned.\<close>
  "assign_to_library target_lib_name assign su =
     (case su of (st, used) \<Rightarrow>
        (case get_library_for_name (ps_libraries st) target_lib_name of
           None \<Rightarrow> (st, used)
         | Some found \<Rightarrow>
             (st\<lparr>ps_libraries_in_this_file := ps_libraries_in_this_file st @ [target_lib_name],
                 ps_libraries :=
                   update_first (\<lambda>l. lib_canonic_name l = target_lib_name)
                     (\<lambda>library.
                        assign (if ps_if_condition st \<noteq> []
                                then library\<lparr>lib_condition :=
                                       condition_add (lib_condition library) (ps_if_condition st)\<rparr>
                                else library))
                     (ps_libraries st)\<rparr>,
              True)))"

definition record_variable ::
  "string \<Rightarrow> string list \<Rightarrow> string
     \<Rightarrow> (string \<times> (string list list \<times> string list)) list
     \<Rightarrow> (string \<times> (string list list \<times> string list)) list" where
  \<comment> \<open>lines 608--616\<close>
  "record_variable variable tokens if_condition defined_variables =
     (case map_of defined_variables variable of
        None \<Rightarrow> dict_set variable ([tokens], [if_condition]) defined_variables
      | Some (values, conditions) \<Rightarrow>
          dict_set variable (values @ [tokens], conditions @ [if_condition]) defined_variables)"

definition process_assignment :: "string \<Rightarrow> parse_state \<Rightarrow> error + parse_state" where
  \<comment> \<open>lines 518--616 for the logical line. A line that reaches this point contains
      \<^verbatim>\<open>=\<close>, so \<^verbatim>\<open>elements\<close> has at least two items whenever it is read.\<close>
  "process_assignment line st =
     (case split_char CHR ''='' line of
        element0 # element1 # _ \<Rightarrow>
          (let variable = variable_of element0;
               plus = str_in ''+='' line;
               s0 = (st, False);
               s1 = (if endswith variable ''_SOURCES''
                     then assign_to_library (take (length variable - length ''_SOURCES'') variable)
                            (\<lambda>library. library\<lparr>lib_filelist :=
                               (if plus then lib_filelist library @ split_ws element1
                                else split_ws element1)\<rparr>) s0
                     else s0);
               s2 = (if endswith variable ''_LDADD''
                     then assign_to_library (take (length variable - length ''_LDADD'') variable)
                            (\<lambda>library. library\<lparr>lib_link_with_libs :=
                               (if plus then lib_link_with_libs library @ split_ws element1
                                else split_ws element1)\<rparr>) s1
                     else s1);
               s3 = (if endswith variable ''_CXXFLAGS'' \<or> endswith variable ''_CPPFLAGS''
                        \<or> endswith variable ''_CFLAGS''
                     then assign_to_library
                            (if endswith variable ''_CFLAGS''
                             then take (length variable - length ''_CFLAGS'') variable
                             else take (length variable - length ''_CXXFLAGS'') variable)
                            (\<lambda>library.
                               let defines = strip (replace_first ''='' []
                                                      (replace_first variable [] line))
                               in library\<lparr>lib_compiler_flags :=
                                    (if plus then lib_compiler_flags library @ defines
                                     else defines)\<rparr>) s2
                     else s2);
               s4 = (if endswith variable ''_LDFLAGS''
                     then assign_to_library (take (length variable - length ''_LDFLAGS'') variable)
                            (\<lambda>library. library\<lparr>lib_linker_flags :=
                               (if plus then lib_linker_flags library @ split_ws element1
                                else split_ws element1)\<rparr>) s3
                     else s3)
           in case s4 of (st4, used) \<Rightarrow>
                if \<not> used
                then (let st5 = (if variable = ''SUBDIRS''
                                 then st4\<lparr>ps_dirs_to_go_in := element1\<rparr> else st4)
                      in if \<not> str_in ''_LIBRARIES'' variable \<and> \<not> str_in ''_PROGRAMS'' variable
                         then Inr (st5\<lparr>ps_defined_variables :=
                                    record_variable variable (split_ws element1)
                                      (ps_if_condition st5) (ps_defined_variables st5)\<rparr>)
                         else Inr st5)
                else Inr st4)
      | _ \<Rightarrow> Inl IndexError)"

definition second_run_line :: "string \<Rightarrow> string list \<Rightarrow> parse_state \<Rightarrow> error + parse_state" where
  \<comment> \<open>the body of the loop for the line \<^verbatim>\<open>content[i]\<close>; \<open>rest\<close> holds the lines after
      it. \<^verbatim>\<open>elements[1]\<close> of a line that starts with \<^verbatim>\<open>if\<close> and has one word raises
      \<^verbatim>\<open>IndexError\<close>.\<close>
  "second_run_line raw_line rest st =
     (let line = strip raw_line in
      if startswith line ''#'' then Inr st
      else
        (case (if startswith line ''if''
               then (case split_ws line of
                       _ # element1 # _ \<Rightarrow> Inr (st\<lparr>ps_if_condition := element1\<rparr>)
                     | _ \<Rightarrow> Inl IndexError)
               else Inr st) of
           Inl e \<Rightarrow> Inl e
         | Inr st1 \<Rightarrow>
             (let st2 = (if startswith line ''endif''
                         then st1\<lparr>ps_if_condition := []\<rparr> else st1)
              in if CHR ''='' \<in> set line \<or> str_in ''+='' line
                 then (case join_continuation line rest of
                         Inl e \<Rightarrow> Inl e
                       | Inr joined \<Rightarrow> process_assignment (logical_line joined) st2)
                 else Inr st2)))"

fun second_run :: "string list \<Rightarrow> parse_state \<Rightarrow> error + parse_state" where
  \<comment> \<open>\<^verbatim>\<open>for i in range(len(content))\<close>: the assignment to \<^verbatim>\<open>i\<close> inside the body does not
      change the next value of \<^verbatim>\<open>i\<close>, so a continuation line is visited again as a line
      of its own.\<close>
  "second_run [] st = Inr st"
| "second_run (raw_line # rest) st =
     (case second_run_line raw_line rest st of
        Inl e \<Rightarrow> Inl e
      | Inr st1 \<Rightarrow> second_run rest st1)"

subsection \<open>\<^verbatim>\<open>process_makefile_am\<close>: subdirectories and the whole function (lines 448--651)\<close>

record CMakeFile =
  cf_directory :: string
  cf_contained_libraries_content :: "string list"
  cf_libraries :: "Library list"
  cf_extra_content :: string

text \<open>
  The module's global variables. \<^verbatim>\<open>config_ac_variables[name]["value"]\<close> is the list of
  the values assigned to a shell variable in \<^verbatim>\<open>configure.ac\<close>.
\<close>

record state =
  st_libraries :: "Library list"
  st_options :: options
  st_temp_defines :: define_table
  st_cmake_files :: "(string \<times> CMakeFile) list"
  st_config_ac_variables :: "(string \<times> string list) list"
  st_extra_content :: "(string \<times> string) list"
  st_required_directories :: "string list"

fun subdir_loop ::
  "string list \<Rightarrow> string \<Rightarrow> string list \<Rightarrow> string \<times> string list \<Rightarrow> string \<times> string list" where
  \<comment> \<open>lines 647--650; the pair is \<^verbatim>\<open>extra_dir\<close> and \<^verbatim>\<open>required_directories\<close>.\<close>
  "subdir_loop exclude_directories current_directory [] acc = acc"
| "subdir_loop exclude_directories current_directory (subdir # rest) (extra_dir, required) =
     (if \<not> should_exclude exclude_directories (current_directory @ ''/'' @ subdir)
      then subdir_loop exclude_directories current_directory rest
             (extra_dir @ nl @ ''add_subdirectory( '' @ subdir @ '' )'',
              required @ [current_directory @ ''/'' @ subdir])
      else subdir_loop exclude_directories current_directory rest (extra_dir, required))"

definition register_subdirs :: "string list \<Rightarrow> string \<Rightarrow> string \<Rightarrow> state \<Rightarrow> state" where
  \<comment> \<open>lines 644--651\<close>
  "register_subdirs exclude_directories current_directory dirs_to_go_in st =
     (if dirs_to_go_in \<noteq> []
      then (case subdir_loop exclude_directories current_directory (split_ws dirs_to_go_in)
                   ([], st_required_directories st) of
              (extra_dir, required) \<Rightarrow>
                st\<lparr>st_extra_content := dict_set current_directory extra_dir (st_extra_content st),
                   st_required_directories := required\<rparr>)
      else st)"

text \<open>
  Lines 618--642 resolve \<^verbatim>\<open>$(variable)\<close> references: for the targets named in this file
  they fill the attributes \<^verbatim>\<open>conditional_appends\<close> and \<^verbatim>\<open>just_variables\<close>, and nothing
  else. The lists they store are shared between targets and with the table of the
  file's variables and are extended in place, and the targets are visited in the order
  of a Python \<^verbatim>\<open>set\<close> of strings, which differs between runs; so what a target ends with
  is not a function of the file alone. The step is the parameter \<open>resolve\<close>: given the
  file's variables, the names of the targets of the file and the targets, it returns
  the two attributes of each target. Everything proved below holds for every such
  function.
\<close>

type_synonym resolver =
  "(string \<times> (string list list \<times> string list)) list \<Rightarrow> string list \<Rightarrow> Library list
     \<Rightarrow> Library \<Rightarrow> (string \<times> string list) list \<times> (string \<times> string list list) list"

definition apply_resolver ::
  "resolver \<Rightarrow> (string \<times> (string list list \<times> string list)) list \<Rightarrow> string list
     \<Rightarrow> Library list \<Rightarrow> Library list" where
  "apply_resolver resolve defined_variables libraries_in_this_file libraries =
     (if defined_variables \<noteq> []
      then map (\<lambda>library.
                  case resolve defined_variables libraries_in_this_file libraries library of
                    (appends, variables) \<Rightarrow>
                      library\<lparr>lib_conditional_appends := appends,
                              lib_just_variables := variables\<rparr>) libraries
      else libraries)"

definition process_makefile_am ::
  "string list \<Rightarrow> resolver \<Rightarrow> (string \<Rightarrow> bool) \<Rightarrow> string \<Rightarrow> string list \<Rightarrow> state
     \<Rightarrow> error + state \<times> string list" where
  \<comment> \<open>\<open>content\<close> is what \<^verbatim>\<open>f.readlines()\<close> returns for the file; the second component of
      the result is what \<^verbatim>\<open>warning\<close> printed.\<close>
  "process_makefile_am exclude_directories resolve isfile file content st =
     (if \<not> isfile file then Inr (st, [''File not found:'' @ file])
      else
        (let current_directory = dirname file in
         if should_exclude exclude_directories current_directory then Inr (st, [])
         else
           (case second_run content
                   \<lparr>ps_if_condition = [], ps_dirs_to_go_in = [], ps_defined_variables = [],
                    ps_libraries_in_this_file = [],
                    ps_libraries = first_run exclude_directories current_directory content
                                     (st_libraries st)\<rparr> of
              Inl e \<Rightarrow> Inl e
            | Inr ps \<Rightarrow>
                Inr (register_subdirs exclude_directories current_directory (ps_dirs_to_go_in ps)
                       (st\<lparr>st_libraries :=
                             apply_resolver resolve (ps_defined_variables ps)
                               (ps_libraries_in_this_file ps) (ps_libraries ps)\<rparr>),
                     []))))"

subsection \<open>\<^verbatim>\<open>filelist_to_string\<close> (lines 909--917)\<close>

text \<open>
  \<^verbatim>\<open>
  def filelist_to_string(elements, source_directory, spacecount = 4):
      filelist = ""
      for file in sorted(elements):
          if os.path.isfile(source_directory + "/" + file):
              filelist += "\n" +" " * spacecount + "${CMAKE_CURRENT_SOURCE_DIR}/" + file
          else:
              filelist += "\n#" +" " * spacecount + "${CMAKE_CURRENT_SOURCE_DIR}/" + file + " # File not found. Fix manually"
              warning("WARNING!!! The file: " + source_directory + "/" + file + " is present in the Makefile.am but cannot be found in the filesystem")
      return filelist
  \<close>
  The file system is the parameter \<open>isfile\<close> (\<^verbatim>\<open>os.path.isfile\<close>). The diagnostics
  printed by \<^verbatim>\<open>warning\<close> are returned as a list, in the order they are printed,
  next to the text.
\<close>

definition source_line :: "int \<Rightarrow> string \<Rightarrow> string" where
  "source_line spacecount file =
     nl @ spaces spacecount @ ''${CMAKE_CURRENT_SOURCE_DIR}/'' @ file"

definition missing_line :: "int \<Rightarrow> string \<Rightarrow> string" where
  "missing_line spacecount file =
     nl @ ''#'' @ spaces spacecount @ ''${CMAKE_CURRENT_SOURCE_DIR}/'' @ file
       @ '' # File not found. Fix manually''"

definition missing_warning :: "string \<Rightarrow> string \<Rightarrow> string" where
  "missing_warning source_directory file =
     ''WARNING!!! The file: '' @ source_directory @ ''/'' @ file
       @ '' is present in the Makefile.am but cannot be found in the filesystem''"

fun filelist_loop ::
  "(string \<Rightarrow> bool) \<Rightarrow> string \<Rightarrow> int \<Rightarrow> string list \<Rightarrow> string \<times> string list
    \<Rightarrow> string \<times> string list" where
  "filelist_loop isfile source_directory spacecount [] acc = acc"
| "filelist_loop isfile source_directory spacecount (file # rest) (filelist, printed) =
     (if isfile (source_directory @ ''/'' @ file)
      then filelist_loop isfile source_directory spacecount rest
             (filelist @ source_line spacecount file, printed)
      else filelist_loop isfile source_directory spacecount rest
             (filelist @ missing_line spacecount file,
              printed @ [missing_warning source_directory file]))"

definition filelist_to_string ::
  "(string \<Rightarrow> bool) \<Rightarrow> string list \<Rightarrow> string \<Rightarrow> int \<Rightarrow> string \<times> string list" where
  "filelist_to_string isfile elements source_directory spacecount =
     filelist_loop isfile source_directory spacecount (sort elements) ([], [])"

subsection \<open>\<^verbatim>\<open>convert\<close>: the top-level build file (lines 1302--1377)\<close>









subsection \<open>\<^verbatim>\<open>make_nice_library_name\<close> (lines 888--903)\<close>

definition make_nice_library_name :: "string \<Rightarrow> string" where
  \<comment> \<open>\<^verbatim>\<open>fullp[-1]\<close> is the last piece of the path, \<^verbatim>\<open>"".join(fullp)\<close> of a path without a
      slash is the path, and \<^verbatim>\<open>split(".")[0]\<close> is the text before the first dot.\<close>
  "make_nice_library_name link_name0 =
     (let link_name = filter (\<lambda>c. c \<noteq> CHR 0x27) link_name0 in
      if startswith link_name ''-L'' then link_name
      else
        (let fullp = split_char CHR ''/'' link_name;
             target1 = (if length fullp > 1 then last fullp else concat fullp);
             target2 = (if CHR ''.'' \<in> set target1
                        then (let stem = takeWhile (\<lambda>c. c \<noteq> CHR ''.'') target1
                              in if startswith stem ''lib'' then drop 3 stem else stem)
                        else target1)
         in if startswith target2 ''-l'' then drop 2 target2 else target2))"

subsection \<open>\<^verbatim>\<open>process_libraries\<close>: the sources of a target (lines 662--771)\<close>

text \<open>
  The text of one target is built in \<^verbatim>\<open>current_content\<close>. The record below holds the
  local variables of the loop body that the source-list part changes: the text, the
  guard \<^verbatim>\<open>condition_required\<close>, the number of entries of \<^verbatim>\<open>added_files\<close> (only its
  emptiness is ever read) and what was printed.
\<close>

record gen =
  g_content :: string
  g_condition_required :: string
  g_added_files :: nat
  g_printed :: "string list"

fun unfold_loop ::
  "(string \<Rightarrow> bool) \<Rightarrow> Library \<Rightarrow> string list \<Rightarrow> string \<times> string list \<Rightarrow> string \<times> string list" where
  \<comment> \<open>lines 686--691: \<^verbatim>\<open>unfolded_conditionals\<close> and what the calls of
      \<^verbatim>\<open>filelist_to_string\<close> printed.\<close>
  "unfold_loop isfile library [] acc = acc"
| "unfold_loop isfile library (cond_append # rest) (unfolded, printed) =
     (if CHR ''$'' \<in> set cond_append
      then (case map_of (lib_just_variables library) (remove_garbage cond_append) of
              Some sublists \<Rightarrow>
                (case filelist_to_string isfile (concat sublists) (lib_directory library) 8 of
                   (text, warnings) \<Rightarrow>
                     unfold_loop isfile library rest (text, printed @ warnings))
            | None \<Rightarrow> unfold_loop isfile library rest (unfolded, printed))
      else unfold_loop isfile library rest (unfolded, printed))"

fun unfold_regardless_loop ::
  "(string \<Rightarrow> bool) \<Rightarrow> Library \<Rightarrow> string list \<Rightarrow> string list \<times> string \<times> string list
     \<Rightarrow> string list \<times> string \<times> string list" where
  \<comment> \<open>lines 712--719: \<^verbatim>\<open>add_regardless\<close>, \<^verbatim>\<open>unfolded_conditionals\<close> and what was printed.\<close>
  "unfold_regardless_loop isfile library [] acc = acc"
| "unfold_regardless_loop isfile library (cond_append # rest) (add_regardless, unfolded, printed) =
     (if CHR ''$'' \<in> set cond_append
      then (case map_of (lib_just_variables library) (remove_garbage cond_append) of
              Some sublists \<Rightarrow>
                (case filelist_to_string isfile (concat sublists) (lib_directory library) 8 of
                   (text, warnings) \<Rightarrow>
                     unfold_regardless_loop isfile library rest
                       (add_regardless, text, printed @ warnings))
            | None \<Rightarrow>
                unfold_regardless_loop isfile library rest (add_regardless, unfolded, printed))
      else unfold_regardless_loop isfile library rest
             (add_regardless @ [cond_append], unfolded, printed))"

definition eight_spaces_join :: "string list \<Rightarrow> string" where
  \<comment> \<open>\<^verbatim>\<open>"\n        ".join(conditional_append)\<close>\<close>
  "eight_spaces_join conditional_append = join (nl @ ''        '') conditional_append"

fun cond_options_loop ::
  "(string \<Rightarrow> bool) \<Rightarrow> Library \<Rightarrow> string \<Rightarrow> string list \<Rightarrow> options \<Rightarrow> gen \<times> bool
     \<Rightarrow> gen \<times> bool" where
  \<comment> \<open>lines 676--700: the loop over the options for one condition; the flag is
      \<^verbatim>\<open>used_cond\<close>.\<close>
  "cond_options_loop isfile library cond conditional_append [] acc = acc"
| "cond_options_loop isfile library cond conditional_append ((opt_key, option) # rest)
     (g, used_cond) =
     (if opt_define option = cond
      then (case unfold_loop isfile library conditional_append ([], []) of
              (unfolded, printed) \<Rightarrow>
                cond_options_loop isfile library cond conditional_append rest
                  (g\<lparr>g_content :=
                        g_content g @ nl @ ''if('' @ opt_name option @ '')'' @ nl
                        @ (if unfolded \<noteq> []
                           then ''    list(APPEND ${project}_SOURCES'' @ unfolded
                           else ''    list(APPEND ${project}_SOURCES'' @ nl @ ''        ''
                                @ eight_spaces_join conditional_append)
                        @ nl @ ''    )'' @ nl @ ''endif()'' @ nl,
                      g_condition_required := opt_name option,
                      g_added_files := g_added_files g + 1,
                      g_printed := g_printed g @ printed\<rparr>,
                   True))
      else cond_options_loop isfile library cond conditional_append rest (g, used_cond))"

definition conditional_append_step ::
  "(string \<Rightarrow> bool) \<Rightarrow> options \<Rightarrow> Library \<Rightarrow> string \<times> string list \<Rightarrow> gen \<Rightarrow> gen" where
  \<comment> \<open>lines 671--723: the body of the loop over \<^verbatim>\<open>library.conditional_appends\<close>.\<close>
  "conditional_append_step isfile options library entry g =
     (case entry of (cond, conditional_append) \<Rightarrow>
        if cond \<noteq> []
        then (case cond_options_loop isfile library cond conditional_append options (g, False) of
                (g1, used_cond) \<Rightarrow>
                  if \<not> used_cond
                  then g1\<lparr>g_condition_required := cond,
                          g_content :=
                            g_content g1 @ nl @ ''if('' @ cond @ '')'' @ nl
                            @ ''    list(APPEND ${project}_SOURCES'' @ nl @ ''        ''
                            @ eight_spaces_join conditional_append
                            @ nl @ ''    )'' @ nl @ ''endif()'' @ nl\<rparr>
                  else g1)
        else (case unfold_regardless_loop isfile library conditional_append ([], [], []) of
                (add_regardless, unfolded, printed) \<Rightarrow>
                  (case filelist_to_string isfile add_regardless (lib_directory library) 8 of
                     (text, warnings) \<Rightarrow>
                       g\<lparr>g_content :=
                            g_content g @ ''list(APPEND ${project}_SOURCES'' @ unfolded @ text
                            @ nl @ '')'' @ nl,
                          g_added_files := g_added_files g + 1,
                          g_printed := g_printed g @ printed @ warnings\<rparr>)))"

fun condition_options_loop ::
  "(string \<Rightarrow> bool) \<Rightarrow> Library \<Rightarrow> options \<Rightarrow> gen \<times> bool \<Rightarrow> gen \<times> bool" where
  \<comment> \<open>lines 728--737: the loop over the options for the target's own condition; the
      flag is \<^verbatim>\<open>condition_used\<close>.\<close>
  "condition_options_loop isfile library [] acc = acc"
| "condition_options_loop isfile library ((opt_key, option) # rest) (g, condition_used) =
     (if eq_condition (opt_define option) (lib_condition library)
      then (case filelist_to_string isfile (lib_filelist library) (lib_directory library) 4 of
              (filelist, warnings) \<Rightarrow>
                condition_options_loop isfile library rest
                  (g\<lparr>g_content :=
                        g_content g @ ''if ('' @ opt_name option @ '')'' @ nl
                        @ ''    list(APPEND ${project}_SOURCES'' @ nl @ ''    '' @ filelist
                        @ '')'' @ nl @ ''endif()'' @ nl @ nl,
                      g_condition_required := opt_name option,
                      g_added_files := g_added_files g + 1,
                      g_printed := g_printed g @ warnings\<rparr>,
                   True))
      else condition_options_loop isfile library rest (g, condition_used))"

definition own_sources :: "(string \<Rightarrow> bool) \<Rightarrow> options \<Rightarrow> Library \<Rightarrow> gen \<Rightarrow> gen \<times> Library" where
  \<comment> \<open>lines 726--755. A condition is true in Python when it is not empty, list or
      string. When no Option matches, the characters are joined and the string is
      assigned to \<^verbatim>\<open>library.condition\<close>.\<close>
  "own_sources isfile options library g =
     (if condition_chars (lib_condition library) \<noteq> []
      then (case condition_options_loop isfile library options (g, False) of
              (g1, condition_used) \<Rightarrow>
                if \<not> condition_used
                then (let new_condition = condition_chars (lib_condition library) in
                      case filelist_to_string isfile (lib_filelist library)
                             (lib_directory library) 4 of
                        (filelist, warnings) \<Rightarrow>
                          (g1\<lparr>g_content :=
                                 g_content g1 @ ''if ('' @ new_condition @ '')'' @ nl
                                 @ ''    list(APPEND ${project}_SOURCES'' @ nl @ ''    ''
                                 @ filelist @ '')'' @ nl @ ''endif()'' @ nl @ nl,
                               g_condition_required := new_condition,
                               g_added_files := g_added_files g1 + 1,
                               g_printed := g_printed g1 @ warnings\<rparr>,
                           library\<lparr>lib_condition := Str new_condition\<rparr>))
                else (g1, library))
      else (case filelist_to_string isfile (lib_filelist library) (lib_directory library) 4 of
              (filelist, warnings) \<Rightarrow>
                (g\<lparr>g_content :=
                      g_content g @ ''list(APPEND ${project}_SOURCES'' @ nl @ ''    ''
                      @ strip filelist @ nl @ '')'' @ nl,
                    g_added_files := g_added_files g + 1,
                    g_printed := g_printed g @ warnings\<rparr>,
                 library)))"

definition guard_of :: "Library \<Rightarrow> string \<Rightarrow> error + string" where
  \<comment> \<open>lines 757--761: \<^verbatim>\<open>if library.condition: condition_required = library.condition\<close>.
      The guard is then concatenated with strings, which raises \<^verbatim>\<open>TypeError\<close> for a
      list.\<close>
  "guard_of library condition_required =
     (case lib_condition library of
        Str s \<Rightarrow> Inr (if s \<noteq> [] then s else condition_required)
      | CharList cs \<Rightarrow> (if cs \<noteq> [] then Inl TypeError else Inr condition_required))"

definition creation_command :: "Library \<Rightarrow> string" where
  \<comment> \<open>lines 763--768\<close>
  "creation_command library =
     (if lib_target_type library = LIBRARY
      then ''add_library ( '' @ lib_referred_name library @ '' '' @ lib_type library @ '' ''
           @ ''${${project}_SOURCES} )'' @ nl
      else ''add_executable('' @ lib_name library @ '' ${${project}_SOURCES} )'' @ nl)"

subsection \<open>\<^verbatim>\<open>process_libraries\<close>: compiler flags and link libraries (lines 773--866)\<close>

fun find_dollar_paren :: "string \<Rightarrow> string option" where
  "find_dollar_paren [] = None"
| "find_dollar_paren (c # cs) =
     (if startswith (c # cs) ''$('' then Some (c # cs) else find_dollar_paren cs)"

definition regex_search :: "string \<Rightarrow> string option" where
  \<comment> \<open>\<^verbatim>\<open>re.search("\$\(.*\)", flag)\<close>, the matched text: from the first \<^verbatim>\<open>$(\<close> to the last
      \<^verbatim>\<open>)\<close> after it. (A flag is a word of \<^verbatim>\<open>split()\<close> and holds no line feed.)\<close>
  "regex_search flag =
     (case find_dollar_paren flag of
        None \<Rightarrow> None
      | Some found \<Rightarrow>
          (let body = drop 2 found
           in if CHR '')'' \<in> set body
              then Some (''$('' @ rev (dropWhile (\<lambda>c. c \<noteq> CHR '')'') (rev body)))
              else None))"

definition has_dollar :: "string \<Rightarrow> bool" where
  "has_dollar flag = (CHR ''$'' \<in> set flag)"

text \<open>
  Lines 795--814. The \<^verbatim>\<open>for\<close> loop runs over the list \<^verbatim>\<open>to_work_with_flags\<close> while its
  body appends to the list and removes from it. Python's list iterator keeps an index:
  each round it stops when the index has reached the current length, and takes the
  element at the index otherwise. \<open>flag_step\<close> is the body for the element \<^verbatim>\<open>flag\<close>,
  \<open>flag_for\<close> the loop from index \<open>i\<close>, \<open>flags_while\<close> the enclosing
  \<^verbatim>\<open>while not done\<close>. The pair is \<^verbatim>\<open>to_work_with_flags\<close> and \<^verbatim>\<open>final_flags\<close>.
\<close>

definition flag_step ::
  "(string \<times> string list) list \<Rightarrow> string \<Rightarrow> string list \<times> string list
     \<Rightarrow> string list \<times> string list" where
  "flag_step config_ac_variables flag acc =
     (case acc of (to_work_with_flags, final_flags) \<Rightarrow>
        (case (if has_dollar flag
               then (case regex_search flag of
                       None \<Rightarrow> (to_work_with_flags, final_flags)
                     | Some matched \<Rightarrow>
                         (let desired_var = remove_garbage matched in
                          if desired_var = ''top_srcdir''
                          then (to_work_with_flags @ [''{CMAKE_SOURCE_DIR}''], final_flags)
                          else (case map_of config_ac_variables desired_var of
                                  Some vs \<Rightarrow> (to_work_with_flags, final_flags @ vs)
                                | None \<Rightarrow> (to_work_with_flags, final_flags))))
               else (to_work_with_flags, final_flags)) of
           (to_work1, final1) \<Rightarrow>
             (if flag \<in> set to_work1 then remove1 flag to_work1 else to_work1, final1)))"

definition flags_weight :: "string list \<Rightarrow> nat" where
  "flags_weight flags = 2 * length (filter has_dollar flags) + length flags"

lemma flag_step_weight:
  assumes "flag \<in> set to_work"
  shows "flags_weight (fst (flag_step cfg flag (to_work, final))) < flags_weight to_work"
    and "length (fst (flag_step cfg flag (to_work, final))) \<le> length to_work"
proof -
  have w: "\<And>xs. flag \<in> set xs \<Longrightarrow>
             flags_weight (remove1 flag xs) + (if has_dollar flag then 3 else 1) = flags_weight xs"
  proof -
    fix xs show "flag \<in> set xs \<Longrightarrow>
             flags_weight (remove1 flag xs) + (if has_dollar flag then 3 else 1) = flags_weight xs"
      by (induction xs) (auto simp: flags_weight_def)
  qed
  have a: "flags_weight (to_work @ [''{CMAKE_SOURCE_DIR}'']) = flags_weight to_work + 1"
    by (simp add: flags_weight_def has_dollar_def)
  show "flags_weight (fst (flag_step cfg flag (to_work, final))) < flags_weight to_work"
    using assms w [of to_work] w [of "to_work @ [''{CMAKE_SOURCE_DIR}'']"] a
    by (auto simp: flag_step_def Let_def split: option.splits if_splits)
  show "length (fst (flag_step cfg flag (to_work, final))) \<le> length to_work"
    using assms
    by (auto simp: flag_step_def Let_def length_remove1 split: option.splits if_splits)
qed

function flag_for ::
  "(string \<times> string list) list \<Rightarrow> nat \<Rightarrow> string list \<times> string list
     \<Rightarrow> string list \<times> string list" where
  "flag_for config_ac_variables i acc =
     (if i < length (fst acc)
      then flag_for config_ac_variables (i + 1)
             (flag_step config_ac_variables (fst acc ! i) (fst acc, snd acc))
      else acc)"
  by pat_completeness auto
termination
proof (relation "measure (\<lambda>(cfg, i, acc). length (fst acc) - i)")
  show "wf (measure (\<lambda>(cfg, i, acc). length (fst acc) - i))" by simp
next
  fix config_ac_variables :: "(string \<times> string list) list"
  fix i :: nat and acc :: "string list \<times> string list"
  assume i: "i < length (fst acc)"
  then have "fst acc ! i \<in> set (fst acc)" by simp
  from flag_step_weight(2) [OF this, of config_ac_variables "snd acc"] i
  show "((config_ac_variables, i + 1, flag_step config_ac_variables (fst acc ! i) (fst acc, snd acc)),
         (config_ac_variables, i, acc)) \<in> measure (\<lambda>(cfg, i, acc). length (fst acc) - i)"
    by simp
qed

lemma flag_for_weight:
  "flags_weight (fst (flag_for cfg i acc)) \<le> flags_weight (fst acc)
   \<and> (i < length (fst acc) \<longrightarrow> flags_weight (fst (flag_for cfg i acc)) < flags_weight (fst acc))"
proof (induction cfg i acc rule: flag_for.induct)
  case (1 cfg i acc)
  show ?case
  proof (cases "i < length (fst acc)")
    case True
    then have m: "fst acc ! i \<in> set (fst acc)" by simp
    from flag_step_weight(1) [OF m, of cfg "snd acc"]
    have s: "flags_weight (fst (flag_step cfg (fst acc ! i) (fst acc, snd acc))) < flags_weight (fst acc)" .
    from 1 [OF True] have
      "flags_weight (fst (flag_for cfg (i + 1) (flag_step cfg (fst acc ! i) (fst acc, snd acc))))
         \<le> flags_weight (fst (flag_step cfg (fst acc ! i) (fst acc, snd acc)))"
      by simp
    with s True show ?thesis
      by (subst (1 2) flag_for.simps) simp
  next
    case False
    then show ?thesis by (subst flag_for.simps) simp
  qed
qed

function flags_while ::
  "(string \<times> string list) list \<Rightarrow> string list \<times> string list \<Rightarrow> string list \<times> string list" where
  "flags_while config_ac_variables acc =
     (let acc1 = flag_for config_ac_variables 0 acc
      in if list_ex has_dollar (fst acc1) then flags_while config_ac_variables acc1 else acc1)"
  by pat_completeness auto
termination
proof (relation "measure (\<lambda>(cfg, acc). flags_weight (fst acc))")
  show "wf (measure (\<lambda>(cfg, acc). flags_weight (fst acc)))" by simp
next
  fix config_ac_variables :: "(string \<times> string list) list"
  fix acc acc1 :: "string list \<times> string list"
  assume a: "acc1 = flag_for config_ac_variables 0 acc" and d: "list_ex has_dollar (fst acc1)"
  have "fst acc \<noteq> []"
  proof
    assume "fst acc = []"
    then have "flag_for config_ac_variables 0 acc = acc" by (subst flag_for.simps) simp
    with a d \<open>fst acc = []\<close> show False by simp
  qed
  then have "0 < length (fst acc)" by simp
  with flag_for_weight [of config_ac_variables 0 acc] a
  show "((config_ac_variables, acc1), (config_ac_variables, acc))
          \<in> measure (\<lambda>(cfg, acc). flags_weight (fst acc))"
    by simp
qed

definition plain_flags :: "string list \<Rightarrow> string" where
  \<comment> \<open>lines 779--783: the flags without \<^verbatim>\<open>$\<close> and \<^verbatim>\<open>@\<close>, each followed by a space.\<close>
  "plain_flags flags =
     concat (map (\<lambda>flag. replace_quotes flag @ '' '')
               (filter (\<lambda>flag. CHR ''$'' \<notin> set flag \<and> CHR ''@'' \<notin> set flag) flags))"

definition indirect_flags :: "string list \<Rightarrow> string list" where
  \<comment> \<open>lines 784--785\<close>
  "indirect_flags flags =
     filter (\<lambda>flag. \<not> (CHR ''$'' \<notin> set flag \<and> CHR ''@'' \<notin> set flag)) flags"

definition include_directories_of :: "string list \<Rightarrow> string list" where
  \<comment> \<open>lines 816--826\<close>
  "include_directories_of final_flags =
     concat (map (\<lambda>flag.
               map (replace_all ''$(top_srcdir)'' ''${CMAKE_SOURCE_DIR}'')
                 (filter (\<lambda>newflag. startswith (strip newflag) ''-I'')
                    (split_ws (strip (filter (\<lambda>c. c \<noteq> CHR 0x27) flag)))))
             final_flags)"

definition flags_text :: "(string \<times> string list) list \<Rightarrow> Library \<Rightarrow> string" where
  \<comment> \<open>lines 773--832: what the flags add to \<^verbatim>\<open>current_content\<close>.\<close>
  "flags_text config_ac_variables library =
     (let flags = split_ws (lib_compiler_flags library);
          final_flags = plain_flags flags;
          include_directories =
            include_directories_of
              (snd (flags_while config_ac_variables (indirect_flags flags, [])))
      in (if final_flags \<noteq> []
          then ''set_target_properties( '' @ lib_referred_name library @ nl
               @ ''    PROPERTIES COMPILE_FLAGS '' @ dq @ final_flags @ dq @ nl @ '')''
          else [])
         @ (if include_directories \<noteq> []
            then nl @ ''target_include_directories( '' @ lib_referred_name library @ '' PRIVATE''
                 @ concat (map (\<lambda>i_d. nl @ ''    '' @ replace_all ''-I'' [] i_d)
                             include_directories)
                 @ nl @ '')'' @ nl
            else []))"

definition link_step ::
  "(string \<times> string list) list \<Rightarrow> Library \<Rightarrow> string \<Rightarrow> string \<times> string list
     \<Rightarrow> string \<times> string list" where
  \<comment> \<open>lines 839--863: the body of the loop over \<^verbatim>\<open>library.link_with_libs\<close>; the pair is
      \<^verbatim>\<open>final_link_list\<close> and what was printed.\<close>
  "link_step config_ac_variables library link_name acc =
     (case acc of (final_link_list, printed) \<Rightarrow>
        (let target_link_lib = make_nice_library_name link_name in
         if startswith target_link_lib ''$''
         then (case map_of (lib_just_variables library) (remove_garbage target_link_lib) of
                 Some link_lists \<Rightarrow>
                   (final_link_list
                      @ concat (map (\<lambda>real_link. nl @ ''    '' @ make_nice_library_name real_link)
                                  (concat link_lists)),
                    printed)
               | None \<Rightarrow> (final_link_list, printed))
         else if startswith target_link_lib ''@''
         then (case map_of config_ac_variables (filter (\<lambda>c. c \<noteq> CHR ''@'') target_link_lib) of
                 Some libs \<Rightarrow>
                   (final_link_list
                      @ concat (map (\<lambda>link_lib_name. nl @ ''    '' @ link_lib_name)
                                  (filter (\<lambda>link_lib_name. \<not> startswith link_lib_name ''-L'')
                                     (map make_nice_library_name (split_ws (concat libs))))),
                    printed)
               | None \<Rightarrow>
                   (final_link_list @ nl @ ''#    '' @ target_link_lib @ '' # <-- FIX THIS'',
                    printed @ [''WARNING: '' @ target_link_lib @ '' in ''
                                @ lib_directory library @ ''/CMakeLists.txt''
                                @ '' was not indentifiable, fix it manually'']))
         else (final_link_list @ nl @ ''    '' @ target_link_lib, printed)))"

definition links_text ::
  "(string \<times> string list) list \<Rightarrow> Library \<Rightarrow> string \<times> string list" where
  \<comment> \<open>lines 834--866\<close>
  "links_text config_ac_variables library =
     (if lib_link_with_libs library \<noteq> []
      then (case fold (link_step config_ac_variables library) (lib_link_with_libs library)
                   (nl @ ''target_link_libraries( '' @ lib_referred_name library, []) of
              (final_link_list, printed) \<Rightarrow> (final_link_list @ nl @ '')'' @ nl, printed))
      else ([], []))"

subsection \<open>\<^verbatim>\<open>process_libraries\<close>: one target and all targets (lines 657--882)\<close>

definition process_library ::
  "(string \<Rightarrow> bool) \<Rightarrow> options \<Rightarrow> (string \<times> string list) list \<Rightarrow> Library
     \<Rightarrow> error + string \<times> Library \<times> string list" where
  \<comment> \<open>the body of the loop for one target: the text \<^verbatim>\<open>current_content\<close>, the target as
      the body leaves it, and what was printed.\<close>
  "process_library isfile options config_ac_variables library =
     (let g0 = \<lparr>g_content =
                   ''# Generating the library '' @ lib_name library @ nl
                   @ ''set(project '' @ dq @ lib_referred_name library @ dq @ '')'' @ nl @ nl
                   @ ''set(${project}, '' @ dq @ dq @ '')'' @ nl,
                 g_condition_required = [],
                 g_added_files = 0,
                 g_printed = (if lib_name library = ''libauth.a'' then [''asd''] else [])\<rparr>;
          g1 = fold (conditional_append_step isfile options library)
                 (lib_conditional_appends library) g0
      in case own_sources isfile options library g1 of
           (g2, library1) \<Rightarrow>
             (case guard_of library1 (g_condition_required g2) of
                Inl e \<Rightarrow> Inl e
              | Inr condition_required \<Rightarrow>
                  (case links_text config_ac_variables library1 of
                     (final_link_list, link_printed) \<Rightarrow>
                       Inr (g_content g2
                            @ (if condition_required \<noteq> []
                               then ''if ('' @ condition_required @ '')'' @ nl else [])
                            @ creation_command library1
                            @ flags_text config_ac_variables library1
                            @ final_link_list
                            @ (if condition_required \<noteq> [] then nl @ ''endif()'' @ nl else []),
                            library1,
                            g_printed g2
                            @ (if g_added_files g2 = 0
                               then [''No source files found for '' @ lib_name library1] else [])
                            @ link_printed))))"





subsection \<open>\<^verbatim>\<open>convert\<close>: writing the files (lines 1302--1412)\<close>

text \<open>
  The files of the project are a map from paths to texts; \<^verbatim>\<open>os.path.isfile\<close> holds of the
  paths the map is defined on. Opening a file for writing is taken to succeed.
  \<^verbatim>\<open>glob.glob\<close> is the parameter \<open>glob\<close>, from a pattern to the paths it matches.
\<close>

type_synonym files = "string \<Rightarrow> string option"










section \<open>Example inputs\<close>



definition example_conditional :: string where
  \<comment> \<open>\<^verbatim>\<open>AM_CONDITIONAL(WITH_FOO, [test "$foo" = yes])\<close>\<close>
  "example_conditional =
     ''AM_CONDITIONAL(WITH_FOO, [test '' @ [CHR 0x22] @ ''$foo'' @ [CHR 0x22] @ '' = yes]) ''"

definition example_option ::
  "string \<Rightarrow> string \<Rightarrow> string \<Rightarrow> string \<Rightarrow> ac_option" where
  "example_option name description status define_name =
     \<lparr>opt_name = name, opt_description = description, opt_status = status,
      opt_define = define_name, opt_define_value = [], opt_define_description = [],
      opt_extra_defines = []\<rparr>"


definition example_define :: string where
  \<comment> \<open>\<^verbatim>\<open>AC_DEFINE(HAVE_FOO_BAR, 1, [Define if foo bar is there])\<close>\<close>
  "example_define = ''AC_DEFINE(HAVE_FOO_BAR, 1, [Define if foo bar is there]) ''"

definition no_similarity :: "string \<Rightarrow> string \<Rightarrow> real" where
  "no_similarity a b = 0"

definition example_define_entry :: "nat \<Rightarrow> define_entry" where
  "example_define_entry used =
     \<lparr>def_name = ''HAVE_FOO_BAR'', def_option_name = [],
      def_description = '', [Define if foo bar is there]'', def_value = '' 1'',
      def_used = used\<rparr>"

definition example_makefile :: "string list" where
  \<comment> \<open>a \<^verbatim>\<open>Makefile.am\<close> whose library gets its sources inside \<^verbatim>\<open>if WITH_FOO\<close>.\<close>
  "example_makefile =
     [''noinst_LIBRARIES = libx.a'' @ nl,
      ''if WITH_FOO'' @ nl,
      ''libx_a_SOURCES = a.c'' @ nl,
      ''endif'' @ nl]"

definition no_resolver :: resolver where
  "no_resolver defined_variables libraries_in_this_file libraries library =
     (lib_conditional_appends library, lib_just_variables library)"

definition empty_state :: state where
  "empty_state =
     \<lparr>st_libraries = [], st_options = [], st_temp_defines = [], st_cmake_files = [],
      st_config_ac_variables = [], st_extra_content = [], st_required_directories = []\<rparr>"

definition example_library :: Library where
  \<comment> \<open>the target the parser makes of \<open>example_makefile\<close> in the directory \<^verbatim>\<open>proj/src\<close>.\<close>
  "example_library =
     \<lparr>lib_name = ''libx.a'', lib_dependant = False, lib_filelist = [''a.c''],
      lib_condition = CharList ''WITH_FOO'', lib_link_with_libs = [],
      lib_compiler_flags = [], lib_linker_flags = [], lib_conditional_appends = [],
      lib_just_variables = [], lib_added_subdirectories = [], lib_target_type = LIBRARY,
      lib_ttype = [], lib_referred_name = ''x'', lib_canonic_name = ''libx_a'',
      lib_directory = ''proj/src'', lib_type = ''STATIC''\<rparr>"




section \<open>Properties\<close>

subsection \<open>Facts about the string operations and dictionaries\<close>

lemma startswith_iff: "startswith s p \<longleftrightarrow> (\<exists>b. s = p @ b)"
proof
  assume "startswith s p"
  then have "s = p @ drop (length p) s"
    unfolding startswith_def by (metis append_take_drop_id)
  then show "\<exists>b. s = p @ b" ..
next
  assume "\<exists>b. s = p @ b"
  then show "startswith s p" by (auto simp: startswith_def)
qed

lemma str_in_iff: "str_in p s \<longleftrightarrow> (\<exists>a b. s = a @ p @ b)"
proof (induction s)
  case Nil
  then show ?case by auto
next
  case (Cons c cs)
  show ?case
  proof
    assume "str_in p (c # cs)"
    then consider "startswith (c # cs) p" | "str_in p cs" by auto
    then show "\<exists>a b. c # cs = a @ p @ b"
    proof cases
      case 1
      then obtain b where "c # cs = [] @ p @ b" by (auto simp: startswith_iff)
      then show ?thesis by blast
    next
      case 2
      with Cons obtain a b where "cs = a @ p @ b" by blast
      then have "c # cs = (c # a) @ p @ b" by simp
      then show ?thesis by blast
    qed
  next
    assume "\<exists>a b. c # cs = a @ p @ b"
    then obtain a b where ab: "c # cs = a @ p @ b" by blast
    show "str_in p (c # cs)"
    proof (cases a)
      case Nil
      with ab have "startswith (c # cs) p" by (auto simp: startswith_iff)
      then show ?thesis by simp
    next
      case (Cons a0 as)
      with ab have "cs = as @ p @ b" by simp
      with Cons.IH have "str_in p cs" by blast
      then show ?thesis by simp
    qed
  qed
qed

lemma str_in_rev: "str_in (rev p) (rev s) = str_in p s"
proof -
  have "(\<exists>a b. rev s = a @ rev p @ b) \<longleftrightarrow> (\<exists>a b. s = a @ p @ b)"
  proof
    assume "\<exists>a b. rev s = a @ rev p @ b"
    then obtain a b where "rev s = a @ rev p @ b" by blast
    then have "rev (rev s) = rev (a @ rev p @ b)" by simp
    then have "s = rev b @ p @ rev a" by simp
    then show "\<exists>a b. s = a @ p @ b" by blast
  next
    assume "\<exists>a b. s = a @ p @ b"
    then obtain a b where "s = a @ p @ b" by blast
    then have "rev s = rev b @ rev p @ rev a" by simp
    then show "\<exists>a b. rev s = a @ rev p @ b" by blast
  qed
  then show ?thesis by (simp add: str_in_iff)
qed

lemma str_in_dropWhile:
  assumes "p \<noteq> []" "\<not> P (hd p)"
  shows "str_in p (dropWhile P s) = str_in p s"
proof (induction s)
  case Nil
  then show ?case by simp
next
  case (Cons c cs)
  show ?case
  proof (cases "P c")
    case True
    have "\<not> startswith (c # cs) p"
    proof
      assume "startswith (c # cs) p"
      then obtain b where "c # cs = p @ b" by (auto simp: startswith_iff)
      with assms(1) have "hd p = c" by (cases p) auto
      with True assms(2) show False by simp
    qed
    with True Cons show ?thesis by simp
  next
    case False
    then show ?thesis by simp
  qed
qed

lemma str_in_strip:
  assumes "p \<noteq> []" "\<not> is_space (hd p)" "\<not> is_space (last p)"
  shows "str_in p (strip s) = str_in p s"
proof -
  have r: "rev p \<noteq> []" "\<not> is_space (hd (rev p))"
    using assms by (simp_all add: hd_rev)
  have "str_in p (strip s) = str_in (rev p) (dropWhile is_space (rev (lstrip s)))"
    unfolding strip_def rstrip_def by (metis str_in_rev rev_rev_ident)
  also have "\<dots> = str_in (rev p) (rev (lstrip s))"
    by (rule str_in_dropWhile [of "rev p" is_space, OF r])
  also have "\<dots> = str_in p (dropWhile is_space s)"
    by (simp add: str_in_rev lstrip_def)
  also have "\<dots> = str_in p s"
    by (rule str_in_dropWhile [of p is_space, OF assms(1,2)])
  finally show ?thesis .
qed

lemma str_in_skip_prefix:
  assumes "p \<noteq> []" "hd p \<notin> set a"
  shows "str_in p (a @ b) = str_in p b"
  using assms(2)
proof (induction a)
  case Nil
  then show ?case by simp
next
  case (Cons c cs)
  have "\<not> startswith (c # cs @ b) p"
  proof
    assume "startswith (c # cs @ b) p"
    then obtain r where "c # cs @ b = p @ r" by (auto simp: startswith_iff)
    with assms(1) have "hd p = c" by (cases p) auto
    with Cons.prems show False by simp
  qed
  with Cons show ?case by simp
qed

lemma yes_in_arg_text:
  assumes "startswith line ''AC_ARG_ENABLE(''"
  shows "str_in ''=yes'' (arg_text line) = str_in ''=yes'' line"
proof -
  from assms obtain rest where line: "line = ''AC_ARG_ENABLE('' @ rest"
    by (auto simp: startswith_iff)
  have "str_in ''=yes'' (arg_text line) = str_in ''=yes'' rest"
    unfolding arg_text_def line by (simp add: str_in_strip is_space_def)
  also have "\<dots> = str_in ''=yes'' line"
    unfolding line by (rule str_in_skip_prefix [symmetric]) simp_all
  finally show ?thesis .
qed

lemma map_of_dict_set: "map_of (dict_set k v d) = (map_of d)(k \<mapsto> v)"
  by (induction d) (auto simp: fun_eq_iff)

lemma process_argument_entry:
  assumes "process_argument line options = Inr options'"
  shows "\<exists>opt. map_of options' (arg_key line) = Some opt
           \<and> opt_status opt = arg_on_off line
           \<and> arg_description (arg_text line) = Inr (opt_description opt)
           \<and> (\<forall>k. k \<noteq> arg_key line \<longrightarrow> map_of options' k = map_of options k)"
  using assms
  by (auto simp: process_argument_def Let_def map_of_dict_set Option_init_def
           split: sum.splits option.splits)

text \<open>
  Claim C9. When \<^verbatim>\<open>process_argument\<close> returns for an \<^verbatim>\<open>AC_ARG_ENABLE(\<close> line, the Option
  it created or updated (the entry under the argument's key; every other entry is as
  before) has status \<^verbatim>\<open>ON\<close> if the raw macro text contains \<^verbatim>\<open>=yes\<close>, and \<^verbatim>\<open>OFF\<close>
  otherwise.
\<close>

theorem process_argument_status:
  assumes "startswith line ''AC_ARG_ENABLE(''"
      and "process_argument line options = Inr options'"
  shows "\<exists>opt. map_of options' (arg_key line) = Some opt
           \<and> opt_status opt = (if str_in ''=yes'' line then ''ON'' else ''OFF'')
           \<and> (\<forall>k. k \<noteq> arg_key line \<longrightarrow> map_of options' k = map_of options k)"
proof -
  from process_argument_entry [OF assms(2)] obtain opt where
    "map_of options' (arg_key line) = Some opt" "opt_status opt = arg_on_off line"
    "\<forall>k. k \<noteq> arg_key line \<longrightarrow> map_of options' k = map_of options k"
    by blast
  then show ?thesis
    using yes_in_arg_text [OF assms(1)] by (auto simp: arg_on_off_def)
qed

theorem process_argument_status_witness:
  "startswith ''AC_ARG_ENABLE(foo, [  --enable-foo=yes   Enable the foo]) '' ''AC_ARG_ENABLE(''
   \<and> str_in ''=yes'' ''AC_ARG_ENABLE(foo, [  --enable-foo=yes   Enable the foo]) ''
   \<and> process_argument ''AC_ARG_ENABLE(foo, [  --enable-foo=yes   Enable the foo]) '' [] =
       Inr [(''foo'',
             \<lparr>opt_name = ''FOO'', opt_description = ''Enable the foo'', opt_status = ''ON'',
              opt_define = [], opt_define_value = [], opt_define_description = [],
              opt_extra_defines = []\<rparr>)]
   \<and> (\<exists>opt. map_of [(''foo'',
             \<lparr>opt_name = ''FOO'', opt_description = ''Enable the foo'', opt_status = ''ON'',
              opt_define = [], opt_define_value = [], opt_define_description = [],
              opt_extra_defines = []\<rparr>)]
            (arg_key ''AC_ARG_ENABLE(foo, [  --enable-foo=yes   Enable the foo]) '') = Some opt
          \<and> opt_status opt = ''ON'')"
proof -
  let ?line = "''AC_ARG_ENABLE(foo, [  --enable-foo=yes   Enable the foo]) ''"
  let ?res = "[(''foo'',
             \<lparr>opt_name = ''FOO'', opt_description = ''Enable the foo'', opt_status = ''ON'',
              opt_define = [], opt_define_value = [], opt_define_description = [],
              opt_extra_defines = []\<rparr>)]"
  have h1: "startswith ?line ''AC_ARG_ENABLE(''" by code_simp
  have h2: "process_argument ?line [] = Inr ?res" by code_simp
  have y: "str_in ''=yes'' ?line" by code_simp
  have k: "arg_key ?line = ''foo''" by code_simp
  from process_argument_status [OF h1 h2] y h1 h2 k show ?thesis
    by (simp del: str_in.simps)
qed

subsection \<open>Merging an argument declaration and a conditional binding\<close>










subsection \<open>Target kinds\<close>










subsection \<open>Binding defines to options\<close>

lemma upper_char_idem: "upper_char (upper_char c) = upper_char c"
  by (simp add: upper_char_def)

lemma upper_idem: "upper (upper s) = upper s"
  by (simp add: upper_def upper_char_idem)

lemma replace_dash_idem:
  "replace_char CHR ''-'' ''_'' (replace_char CHR ''-'' ''_'' s) = replace_char CHR ''-'' ''_'' s"
  by (induction s) (simp_all add: replace_char_def)

lemma keys_name_dict_set:
  "keys_name_options options \<Longrightarrow> upper (opt_name opt) = upper k \<Longrightarrow>
     keys_name_options (dict_set k opt options)"
  by (induction options) (auto simp: keys_name_options_def)

lemma keys_name_lookup:
  "keys_name_options options \<Longrightarrow> map_of options k = Some opt \<Longrightarrow>
     upper (opt_name opt) = upper k"
  by (induction options) (auto simp: keys_name_options_def split: if_splits)

lemma process_argument_keys_name:
  assumes "keys_name_options options" and "process_argument line options = Inr options'"
  shows "keys_name_options options'"
  using assms
  by (auto simp: process_argument_def Let_def Option_init_def arg_key_def
                 replace_dash_idem upper_idem
           intro!: keys_name_dict_set split: sum.splits option.splits)

lemma process_conditional_keys_name:
  assumes "keys_name_options options"
  shows "keys_name_options (process_conditional line options)"
  using assms
  by (auto simp: process_conditional_def Let_def Option_init_def cond_key_def
                 replace_dash_idem upper_idem
           intro!: keys_name_dict_set dest: keys_name_lookup split: option.splits)

lemma bind_define_name: "opt_name (fst (bind_define opt d)) = opt_name opt"
  by (simp add: bind_define_def set_define_value_def Let_def split: prod.splits)

lemma exact_scan_name: "opt_name (fst (exact_scan opt ds)) = opt_name opt"
proof (induction ds arbitrary: opt)
  case Nil
  then show ?case by simp
next
  case (Cons nd ds)
  obtain n d where nd: "nd = (n, d)" by (cases nd)
  have b: "opt_name (fst (bind_define opt d)) = opt_name opt" by (rule bind_define_name)
  show ?case
    using Cons.IH [of "fst (bind_define opt d)"] b nd
    by (auto simp: Let_def split: prod.splits)
qed

lemma exact_pass_keys_name:
  "keys_name_options options \<Longrightarrow> keys_name_options (fst (exact_pass options ds))"
proof (induction options arbitrary: ds)
  case Nil
  then show ?case by simp
next
  case (Cons ko options)
  obtain k opt where ko: "ko = (k, opt)" by (cases ko)
  from Cons.prems ko have t: "keys_name_options options" and h: "upper (opt_name opt) = upper k"
    by (simp_all add: keys_name_options_def)
  have "keys_name_options (fst (exact_pass options (snd (exact_scan opt ds))))"
    by (rule Cons.IH [OF t])
  then show ?case
    using ko h exact_scan_name [of opt ds]
    by (auto simp: keys_name_options_def Let_def split: prod.splits)
qed

lemma fuzzy_attach_keys: "map fst (fuzzy_attach similar n options) = map fst options"
  by (induction options) (auto simp: fuzzy_attach_def)

lemma fuzzy_attach_map_of:
  "map_of (fuzzy_attach similar n options) k
     = map_option (\<lambda>opt. if fuzzy_match similar n k then add_extra_define n opt else opt)
         (map_of options k)"
  by (induction options) (auto simp: fuzzy_attach_def)

lemma fuzzy_pass_options_grow:
  assumes "map_of options k = Some opt"
  shows "\<exists>opt'. map_of (snd (fuzzy_pass similar ds options)) k = Some opt'
           \<and> set (opt_extra_defines opt) \<subseteq> set (opt_extra_defines opt')"
  using assms
proof (induction ds arbitrary: options opt)
  case Nil
  then show ?case by simp
next
  case (Cons nd ds)
  obtain n d where nd: "nd = (n, d)" by (cases nd)
  show ?case
  proof (cases "def_used d = 0")
    case True
    let ?o1 = "fuzzy_attach similar n options"
    let ?opt1 = "if fuzzy_match similar n k then add_extra_define n opt else opt"
    have m: "map_of ?o1 k = Some ?opt1"
      using Cons.prems by (simp add: fuzzy_attach_map_of)
    from Cons.IH [OF m] obtain opt' where
      "map_of (snd (fuzzy_pass similar ds ?o1)) k = Some opt'"
      "set (opt_extra_defines ?opt1) \<subseteq> set (opt_extra_defines opt')"
      by blast
    moreover have "set (opt_extra_defines opt) \<subseteq> set (opt_extra_defines ?opt1)"
      by (auto simp: add_extra_define_def)
    ultimately show ?thesis
      using True nd by (auto simp: Let_def split: prod.splits)
  next
    case False
    from Cons.IH [OF Cons.prems] show ?thesis
      using False nd by (auto simp: Let_def split: prod.splits)
  qed
qed

lemma fuzzy_pass_attaches:
  assumes "map_of ds n = Some d" and "def_used d = 0"
      and "map_of options k = Some opt" and "fuzzy_match similar n k"
  shows "\<exists>opt'. map_of (snd (fuzzy_pass similar ds options)) k = Some opt'
           \<and> n \<in> set (opt_extra_defines opt')"
  using assms
proof (induction ds arbitrary: options opt)
  case Nil
  then show ?case by simp
next
  case (Cons md ds)
  obtain m e where md: "md = (m, e)" by (cases md)
  show ?case
  proof (cases "m = n")
    case True
    with Cons.prems md have e: "e = d" by simp
    let ?o1 = "fuzzy_attach similar n options"
    have "map_of ?o1 k = Some (add_extra_define n opt)"
      using Cons.prems by (simp add: fuzzy_attach_map_of)
    from fuzzy_pass_options_grow [OF this, of similar ds] obtain opt' where
      "map_of (snd (fuzzy_pass similar ds ?o1)) k = Some opt'"
      "set (opt_extra_defines (add_extra_define n opt)) \<subseteq> set (opt_extra_defines opt')"
      by blast
    then show ?thesis
      using True md e Cons.prems(2)
      by (auto simp: Let_def add_extra_define_def split: prod.splits)
  next
    case False
    with Cons.prems md have d: "map_of ds n = Some d" by simp
    show ?thesis
    proof (cases "def_used e = 0")
      case True
      let ?o1 = "fuzzy_attach similar m options"
      obtain opt1 where o1: "map_of ?o1 k = Some opt1"
        using Cons.prems by (simp add: fuzzy_attach_map_of)
      from Cons.IH [OF d Cons.prems(2) o1 Cons.prems(4)] show ?thesis
        using True md by (auto simp: Let_def split: prod.splits)
    next
      case False
      from Cons.IH [OF d Cons.prems(2) Cons.prems(3) Cons.prems(4)] show ?thesis
        using False md by (auto simp: Let_def split: prod.splits)
    qed
  qed
qed

lemma fuzzy_pass_marks_used:
  assumes "map_of ds n = Some d" and "def_used d = 0"
      and "map_of options k = Some opt" and "fuzzy_match similar n k"
  shows "map_of (fst (fuzzy_pass similar ds options)) n = Some (d\<lparr>def_used := 1\<rparr>)"
  using assms
proof (induction ds arbitrary: options opt)
  case Nil
  then show ?case by simp
next
  case (Cons md ds)
  obtain m e where md: "md = (m, e)" by (cases md)
  show ?case
  proof (cases "m = n")
    case True
    with Cons.prems md have e: "e = d" by simp
    have "(k, opt) \<in> set options" using Cons.prems(3) by (rule map_of_SomeD)
    with Cons.prems(4) have "list_ex (\<lambda>(option_name, option). fuzzy_match similar n option_name) options"
      by (auto simp: list_ex_iff)
    then show ?thesis
      using True md e Cons.prems(2) by (auto simp: Let_def split: prod.splits)
  next
    case False
    with Cons.prems md have d: "map_of ds n = Some d" by simp
    show ?thesis
    proof (cases "def_used e = 0")
      case True
      let ?o1 = "fuzzy_attach similar m options"
      obtain opt1 where o1: "map_of ?o1 k = Some opt1"
        using Cons.prems by (simp add: fuzzy_attach_map_of)
      from Cons.IH [OF d Cons.prems(2) o1 Cons.prems(4)] show ?thesis
        using True md \<open>m \<noteq> n\<close> by (auto simp: Let_def split: prod.splits)
    next
      case False
      from Cons.IH [OF d Cons.prems(2) Cons.prems(3) Cons.prems(4)] show ?thesis
        using False md \<open>m \<noteq> n\<close> by (auto simp: Let_def split: prod.splits)
    qed
  qed
qed

text \<open>
  Claim C6. Take a Define that is still unused after the exact pass and an Option whose
  name, upper-cased, scores above 0.5 against the Define's upper-cased name, or contains
  it, or is contained in it. After the fuzzy pass the Define's name is among the
  Option's extra defines and the Define's used flag is 1, the Define being otherwise
  unchanged. (The hypothesis on the name holds for every Option made by the parser,
  see \<open>process_argument_keys_name\<close>, \<open>process_conditional_keys_name\<close> and
  \<open>exact_pass_keys_name\<close>.) The witness is the Define \<^verbatim>\<open>HAVE_FOO_BAR\<close> and the Option
  \<^verbatim>\<open>FOO_BAR\<close>, with a scorer that finds no similarity at all.
\<close>

theorem fuzzy_define_attached:
  assumes "exact_pass options temp_defines = (options1, temp_defines1)"
      and "map_of temp_defines1 temp_define_name = Some temp_define"
      and "def_used temp_define = 0"
      and "map_of options1 option_name = Some option"
      and "upper (opt_name option) = upper option_name"
      and "0.5 < similar (upper temp_define_name) (upper (opt_name option))
           \<or> str_in (upper temp_define_name) (upper (opt_name option))
           \<or> str_in (upper (opt_name option)) (upper temp_define_name)"
  shows "\<exists>option'. map_of (fst (merge_defines similar options temp_defines)) option_name
                       = Some option'
           \<and> temp_define_name \<in> set (opt_extra_defines option')
           \<and> map_of (snd (merge_defines similar options temp_defines)) temp_define_name
               = Some (temp_define\<lparr>def_used := 1\<rparr>)"
proof -
  have m: "fuzzy_match similar temp_define_name option_name"
    using assms(5,6) by (simp add: fuzzy_match_def Let_def)
  have r: "merge_defines similar options temp_defines
             = (snd (fuzzy_pass similar temp_defines1 options1),
                fst (fuzzy_pass similar temp_defines1 options1))"
    using assms(1) by (simp add: merge_defines_def split: prod.splits)
  from fuzzy_pass_attaches [OF assms(2,3,4) m] fuzzy_pass_marks_used [OF assms(2,3,4) m]
  show ?thesis by (simp add: r)
qed

theorem fuzzy_define_attached_witness:
  "process_a_define example_define [] = [(''HAVE_FOO_BAR'', example_define_entry 0)]
   \<and> exact_pass [(''foo_bar'', example_option ''FOO_BAR'' [] [] [])]
                 [(''HAVE_FOO_BAR'', example_define_entry 0)]
       = ([(''foo_bar'', example_option ''FOO_BAR'' [] [] [])],
          [(''HAVE_FOO_BAR'', example_define_entry 0)])
   \<and> str_in (upper ''FOO_BAR'') (upper ''HAVE_FOO_BAR'')
   \<and> merge_defines no_similarity [(''foo_bar'', example_option ''FOO_BAR'' [] [] [])]
                    [(''HAVE_FOO_BAR'', example_define_entry 0)]
       = ([(''foo_bar'', (example_option ''FOO_BAR'' [] [] [])
                          \<lparr>opt_extra_defines := [''HAVE_FOO_BAR'']\<rparr>)],
          [(''HAVE_FOO_BAR'', example_define_entry 1)])"
proof -
  let ?O = "[(''foo_bar'', example_option ''FOO_BAR'' [] [] [])]"
  let ?D = "[(''HAVE_FOO_BAR'', example_define_entry 0)]"
  have p: "process_a_define example_define [] = ?D" by code_simp
  have h1: "exact_pass ?O ?D = (?O, ?D)" by code_simp
  have h2: "map_of ?D ''HAVE_FOO_BAR'' = Some (example_define_entry 0)" by simp
  have h3: "def_used (example_define_entry 0) = 0" by (simp add: example_define_entry_def)
  have h4: "map_of ?O ''foo_bar'' = Some (example_option ''FOO_BAR'' [] [] [])" by simp
  have h5: "upper (opt_name (example_option ''FOO_BAR'' [] [] [])) = upper ''foo_bar''"
    by code_simp
  have s: "str_in (upper ''FOO_BAR'') (upper ''HAVE_FOO_BAR'')" by code_simp
  have n: "opt_name (example_option ''FOO_BAR'' [] [] []) = ''FOO_BAR''"
    by (simp add: example_option_def)
  have h6: "0.5 < no_similarity (upper ''HAVE_FOO_BAR'')
                     (upper (opt_name (example_option ''FOO_BAR'' [] [] [])))
           \<or> str_in (upper ''HAVE_FOO_BAR'') (upper (opt_name (example_option ''FOO_BAR'' [] [] [])))
           \<or> str_in (upper (opt_name (example_option ''FOO_BAR'' [] [] []))) (upper ''HAVE_FOO_BAR'')"
    using s n by simp
  have r: "merge_defines no_similarity ?O ?D
       = ([(''foo_bar'', (example_option ''FOO_BAR'' [] [] [])
                          \<lparr>opt_extra_defines := [''HAVE_FOO_BAR'']\<rparr>)],
          [(''HAVE_FOO_BAR'', example_define_entry 1)])"
    by code_simp
  from fuzzy_define_attached [where similar = no_similarity, OF h1 h2 h3 h4 h5 h6] p h1 s r
  show ?thesis by blast
qed

subsection \<open>Regenerating the top-level file\<close>








subsection \<open>What generation changes of the parsed state\<close>












subsection \<open>The guard of a conditionally declared target\<close>

text \<open>
  Claim C1, evaluated on an example. \<^verbatim>\<open>configure.ac\<close> binds the symbol \<^verbatim>\<open>WITH_FOO\<close> to the
  Option \<^verbatim>\<open>FOO\<close>; the makefile gives \<^verbatim>\<open>libx.a\<close> its sources inside \<^verbatim>\<open>if WITH_FOO\<close>. The
  parser records the condition against the target, as a list of characters. The
  generator compares each Option's bound symbol, a string, with that list, finds no
  Option, and guards both the source list and the creation command with the raw token:
  \<^verbatim>\<open>if (WITH_FOO)\<close>, not \<^verbatim>\<open>if (FOO)\<close>.
\<close>

theorem conditional_target_guard:
  "process_conditional example_conditional [] = [(''foo'', example_option ''FOO'' [] [] ''WITH_FOO'')]
   \<and> process_makefile_am [] no_resolver (\<lambda>path. True) ''proj/src/Makefile.am'' example_makefile
         empty_state
       = Inr (empty_state\<lparr>st_libraries := [example_library]\<rparr>, [])
   \<and> lib_condition example_library = CharList ''WITH_FOO''
   \<and> process_library (\<lambda>path. path = ''proj/src/a.c'')
         [(''foo'', example_option ''FOO'' [] [] ''WITH_FOO'')] [] example_library
       = Inr (''# Generating the library libx.a'' @ nl
              @ ''set(project '' @ dq @ ''x'' @ dq @ '')'' @ nl @ nl
              @ ''set(${project}, '' @ dq @ dq @ '')'' @ nl
              @ ''if (WITH_FOO)'' @ nl
              @ ''    list(APPEND ${project}_SOURCES'' @ nl
              @ ''    '' @ nl
              @ ''    ${CMAKE_CURRENT_SOURCE_DIR}/a.c)'' @ nl
              @ ''endif()'' @ nl @ nl
              @ ''if (WITH_FOO)'' @ nl
              @ ''add_library ( x STATIC ${${project}_SOURCES} )'' @ nl
              @ nl @ ''endif()'' @ nl,
              example_library\<lparr>lib_condition := Str ''WITH_FOO''\<rparr>, [])"
  by code_simp

subsection \<open>Properties of \<^verbatim>\<open>filelist_to_string\<close>\<close>






text \<open>
  Claim C10. Source-list rendering is permutation-invariant: two file-name lists with
  the same elements and multiplicities give the same text (and the same warnings) for
  every directory, file system and indentation width, since the names are rendered in
  ascending sorted order.
\<close>

theorem filelist_to_string_permutation:
  assumes "mset xs = mset ys"
  shows "filelist_to_string isfile xs source_directory spacecount
       = filelist_to_string isfile ys source_directory spacecount"
proof -
  have "sort xs = sort ys"
    by (rule properties_for_sort) (simp_all add: assms)
  then show ?thesis
    by (simp add: filelist_to_string_def)
qed

theorem filelist_to_string_permutation_witness:
  "mset [''b.c'', ''a.c'', ''c.c''] = mset [''c.c'', ''b.c'', ''a.c'']
   \<and> filelist_to_string (\<lambda>p. p = ''src/a.c'') [''b.c'', ''a.c'', ''c.c''] ''src'' 8
     = filelist_to_string (\<lambda>p. p = ''src/a.c'') [''c.c'', ''b.c'', ''a.c''] ''src'' 8"
proof -
  have m: "mset [''b.c'', ''a.c'', ''c.c''] = mset [''c.c'', ''b.c'', ''a.c'']"
    by (simp add: add.commute add.left_commute)
  show ?thesis
    using m filelist_to_string_permutation [OF m] by simp
qed

end
